theory Spec2Isabelle
  imports Complex_Main
begin

section \<open>Python values, exceptions, strings and paths\<close>

text \<open>
  The tools are Python scripts. An exception is a value of \<open>py_error\<close>; a function that
  can raise returns \<open>py_error + 'a\<close> with \<open>Inl\<close> for the exception.
\<close>

datatype py_error =
    FileNotFoundError
  | OSError
  | KeyError
  | ValueError
  | TypeError
  | IndexError
  | UnboundLocalError
  | OtherError string

definition bind_err :: "py_error + 'a \<Rightarrow> ('a \<Rightarrow> py_error + 'b) \<Rightarrow> py_error + 'b" where
  "bind_err m k = (case m of Inl e \<Rightarrow> Inl e | Inr x \<Rightarrow> k x)"

text \<open>Reading a local variable that no executed statement has bound.\<close>

definition read_local :: "'a option \<Rightarrow> py_error + 'a" where
  "read_local v = (case v of None \<Rightarrow> Inl UnboundLocalError | Some x \<Rightarrow> Inr x)"

text \<open>Python's \<open>str\<close> of an integer, as the f-strings of the file names use it.\<close>

fun digits_nat :: "nat \<Rightarrow> string" where
  "digits_nat n =
     (if n < 10 then [''0123456789'' ! n]
      else digits_nat (n div 10) @ [''0123456789'' ! (n mod 10)])"

declare digits_nat.simps [simp del]

definition py_str_int :: "int \<Rightarrow> string" where
  "py_str_int i = (if i < 0 then CHR ''-'' # digits_nat (nat (- i)) else digits_nat (nat i))"

text \<open>\<open>str.zfill(width)\<close>: zeros go after a leading sign.\<close>

definition zfill :: "string \<Rightarrow> nat \<Rightarrow> string" where
  "zfill s width =
     (if width \<le> length s then s
      else case s of
             c # cs \<Rightarrow>
               (if c = CHR ''+'' \<or> c = CHR ''-''
                then c # replicate (width - length s) CHR ''0'' @ cs
                else replicate (width - length s) CHR ''0'' @ s)
           | [] \<Rightarrow> replicate width CHR ''0'')"

text \<open>\<open>os.path.join\<close> of two components; with three it is applied from the left.\<close>

definition path_join :: "string \<Rightarrow> string \<Rightarrow> string" where
  "path_join a b =
     (if b \<noteq> [] \<and> hd b = CHR ''/'' then b
      else if a = [] \<or> last a = CHR ''/'' then a @ b
      else a @ ''/'' @ b)"

text \<open>
  Text that comes from outside the program (the output of a command) is a Python \<open>str\<close>,
  a sequence of Unicode code points: a list of natural numbers. \<open>ustr\<close> gives the code
  points of an ASCII literal of the source.
\<close>

type_synonym ustring = "nat list"

definition ustr :: "string \<Rightarrow> ustring" where
  "ustr s = map of_char s"

text \<open>\<open>sub in s\<close> on strings.\<close>

fun py_in :: "'a list \<Rightarrow> 'a list \<Rightarrow> bool" where
  "py_in sub [] = (sub = [])"
| "py_in sub (c # cs) = (take (length sub) (c # cs) = sub \<or> py_in sub cs)"

text \<open>
  \<open>str.splitlines()\<close>. The line boundaries are line feed, carriage return (alone or
  before a line feed), vertical tab, form feed, the file, group and record separators,
  next line (U+0085), line separator (U+2028) and paragraph separator (U+2029). The
  second argument is the line read so far, reversed.
\<close>

definition is_linebreak :: "nat \<Rightarrow> bool" where
  "is_linebreak c = (c \<in> {10, 11, 12, 13, 28, 29, 30, 133, 8232, 8233})"

fun splitlines_from :: "ustring \<Rightarrow> ustring \<Rightarrow> ustring list" where
  "splitlines_from [] acc = (if acc = [] then [] else [rev acc])"
| "splitlines_from [c] acc =
     (if is_linebreak c then [rev acc] else [rev (c # acc)])"
| "splitlines_from (c # d # cs) acc =
     (if c = 13 \<and> d = 10 then rev acc # splitlines_from cs []
      else if is_linebreak c then rev acc # splitlines_from (d # cs) []
      else splitlines_from (d # cs) (c # acc))"

definition splitlines :: "ustring \<Rightarrow> ustring list" where
  "splitlines s = splitlines_from s []"

text \<open>\<open>s.split(sep)\<close> for a separator of one character.\<close>

fun py_split :: "'a \<Rightarrow> 'a list \<Rightarrow> 'a list list" where
  "py_split sep [] = [[]]"
| "py_split sep (c # cs) =
     (if c = sep then [] # py_split sep cs
      else case py_split sep cs of
             x # xs \<Rightarrow> (c # x) # xs
           | [] \<Rightarrow> [[c]])"

text \<open>
  \<open>s.strip()\<close> removes white space at both ends: the code points for which
  \<open>str.isspace\<close> holds.
\<close>

definition is_space :: "nat \<Rightarrow> bool" where
  "is_space c =
     (c \<in> {9, 10, 11, 12, 13, 28, 29, 30, 31, 32, 133, 160, 5760, 8232, 8233, 8239, 8287, 12288}
      \<or> (8192 \<le> c \<and> c \<le> 8202))"

definition strip :: "ustring \<Rightarrow> ustring" where
  "strip s = rev (dropWhile is_space (rev (dropWhile is_space s)))"

text \<open>\<open>xs[i]\<close> for a list and an index that is not negative.\<close>

definition py_index :: "'a list \<Rightarrow> nat \<Rightarrow> py_error + 'a" where
  "py_index xs i = (if i < length xs then Inr (xs ! i) else Inl IndexError)"

section \<open>The variable catalogue (\<open>osprey/utils/vardict.py\<close>)\<close>

text \<open>
  An entry of the catalogue is a dictionary with the keys \<open>dim\<close>, \<open>grid\<close>, \<open>units\<close>,
  \<open>long_name\<close> and, for derived quantities, \<open>dependencies\<close> (the \<open>operation\<close> and
  \<open>preprocessing\<close> closures of the derived quantities are not data and are left out).
  The \<open>grid\<close> key holds a tag or a list of tags.
\<close>

datatype grid_val = GridTag string | GridList "string list"

record var_entry =
  dim :: string
  grid :: grid_val
  units :: string
  long_name :: string
  dependencies :: "string list option"

definition nemo_list :: "(string \<times> var_entry) list" where
  "nemo_list =
    [(''e3t'', \<lparr>dim = ''3D'', grid = GridTag ''T'', units = ''m'', long_name = ''T-cell thickness'', dependencies = None\<rparr>),
     (''thetao'', \<lparr>dim = ''3D'', grid = GridTag ''T'', units = ''degC'', long_name = ''Temperature'', dependencies = None\<rparr>),
     (''so'', \<lparr>dim = ''3D'', grid = GridTag ''T'', units = ''PSU'', long_name = ''Salinity'', dependencies = None\<rparr>),
     (''tos'', \<lparr>dim = ''2D'', grid = GridTag ''T'', units = ''degC'', long_name = ''Sea-surface temperature'', dependencies = None\<rparr>),
     (''sos'', \<lparr>dim = ''2D'', grid = GridTag ''T'', units = ''PSU'', long_name = ''Sea-surface salinity'', dependencies = None\<rparr>),
     (''zos'', \<lparr>dim = ''2D'', grid = GridTag ''T'', units = ''m'', long_name = ''Sea surface height'', dependencies = None\<rparr>),
     (''sstdcy'', \<lparr>dim = ''2D'', grid = GridTag ''T'', units = ''degC'', long_name = ''Sea-surface temperature diurnal cycle'', dependencies = None\<rparr>),
     (''mldkz5'', \<lparr>dim = ''2D'', grid = GridTag ''T'', units = ''m'', long_name = ''Turbocline depth'', dependencies = None\<rparr>),
     (''mldr10_1'', \<lparr>dim = ''2D'', grid = GridTag ''T'', units = ''m'', long_name = ''Mixed layer depth'', dependencies = None\<rparr>),
     (''mldr10_1dcy'', \<lparr>dim = ''2D'', grid = GridTag ''T'', units = ''m'', long_name = ''Amplitude of mldr10_1 diurnal cycle'', dependencies = None\<rparr>),
     (''sbt'', \<lparr>dim = ''2D'', grid = GridTag ''T'', units = ''degC'', long_name = ''Sea bottom temperature'', dependencies = None\<rparr>),
     (''heatc'', \<lparr>dim = ''2D'', grid = GridTag ''T'', units = ''J/m^2'', long_name = ''Heat content vertically integrated'', dependencies = None\<rparr>),
     (''saltc'', \<lparr>dim = ''2D'', grid = GridTag ''T'', units = ''PSU*kg/m^2'', long_name = ''Salt content vertically integrated'', dependencies = None\<rparr>),
     (''wfo'', \<lparr>dim = ''2D'', grid = GridTag ''T'', units = ''kg/m^2/s'', long_name = ''Net upward water flux'', dependencies = None\<rparr>),
     (''qsr_oce'', \<lparr>dim = ''2D'', grid = GridTag ''T'', units = ''W/m^2'', long_name = ''Solar heat flux at ocean surface'', dependencies = None\<rparr>),
     (''qns_oce'', \<lparr>dim = ''2D'', grid = GridTag ''T'', units = ''W/m^2'', long_name = ''Non-solar heat flux at ocean surface (including E-P)'', dependencies = None\<rparr>),
     (''qt_oce'', \<lparr>dim = ''2D'', grid = GridTag ''T'', units = ''W/m^2'', long_name = ''Total flux at ocean surface'', dependencies = None\<rparr>),
     (''sfx'', \<lparr>dim = ''2D'', grid = GridTag ''T'', units = ''g/m2/s'', long_name = ''Downward salt flux'', dependencies = None\<rparr>),
     (''taum'', \<lparr>dim = ''2D'', grid = GridTag ''T'', units = ''N/m^2'', long_name = ''Surface downward wind stress'', dependencies = None\<rparr>),
     (''windsp'', \<lparr>dim = ''2D'', grid = GridTag ''T'', units = ''m/s'', long_name = ''Wind speed'', dependencies = None\<rparr>),
     (''precip'', \<lparr>dim = ''2D'', grid = GridTag ''T'', units = ''kg/m2/s'', long_name = ''Precipitation flux'', dependencies = None\<rparr>),
     (''snowpre'', \<lparr>dim = ''2D'', grid = GridTag ''T'', units = ''kg/m2/s'', long_name = ''Snowfall flux'', dependencies = None\<rparr>),
     (''e3u'', \<lparr>dim = ''3D'', grid = GridTag ''U'', units = ''m'', long_name = ''U-cell thickness'', dependencies = None\<rparr>),
     (''uo'', \<lparr>dim = ''3D'', grid = GridTag ''U'', units = ''m/s'', long_name = ''Ocean current along i-axis'', dependencies = None\<rparr>),
     (''uos'', \<lparr>dim = ''2D'', grid = GridTag ''U'', units = ''m/s'', long_name = ''Ocean surface current along i-axis'', dependencies = None\<rparr>),
     (''tauuo'', \<lparr>dim = ''2D'', grid = GridTag ''U'', units = ''N/m^2'', long_name = ''Wind stress along i-axis'', dependencies = None\<rparr>),
     (''uocetr_eff'', \<lparr>dim = ''3D'', grid = GridTag ''U'', units = ''m^3/s'', long_name = ''Effective ocean transport along i-axis'', dependencies = None\<rparr>),
     (''vozomatr'', \<lparr>dim = ''3D'', grid = GridTag ''U'', units = ''kg/s'', long_name = ''Ocean mass transport along i-axis'', dependencies = None\<rparr>),
     (''sozohetr'', \<lparr>dim = ''2D'', grid = GridTag ''U'', units = ''W'', long_name = ''Heat transport along i-axis'', dependencies = None\<rparr>),
     (''sozosatr'', \<lparr>dim = ''2D'', grid = GridTag ''U'', units = ''1e-3*kg/s'', long_name = ''Salt transport along i-axis'', dependencies = None\<rparr>),
     (''e3v'', \<lparr>dim = ''3D'', grid = GridTag ''V'', units = ''m'', long_name = ''V-cell thickness'', dependencies = None\<rparr>),
     (''vo'', \<lparr>dim = ''3D'', grid = GridTag ''V'', units = ''m/s'', long_name = ''Ocean current along j-axis'', dependencies = None\<rparr>),
     (''vos'', \<lparr>dim = ''2D'', grid = GridTag ''V'', units = ''m/s'', long_name = ''Ocean surface current along j-axis'', dependencies = None\<rparr>),
     (''tauvo'', \<lparr>dim = ''2D'', grid = GridTag ''V'', units = ''N/m^2'', long_name = ''Wind stress along j-axis'', dependencies = None\<rparr>),
     (''vocetr_eff'', \<lparr>dim = ''3D'', grid = GridTag ''V'', units = ''m^3/s'', long_name = ''Effective ocean transport along j-axis'', dependencies = None\<rparr>),
     (''vomematr'', \<lparr>dim = ''3D'', grid = GridTag ''V'', units = ''kg/s'', long_name = ''Ocean mass transport along j-axis'', dependencies = None\<rparr>),
     (''somehetr'', \<lparr>dim = ''2D'', grid = GridTag ''V'', units = ''W'', long_name = ''Heat transport along j-axis'', dependencies = None\<rparr>),
     (''somesatr'', \<lparr>dim = ''2D'', grid = GridTag ''V'', units = ''1e-3*kg/s'', long_name = ''Salt transport along j-axis'', dependencies = None\<rparr>),
     (''e3w'', \<lparr>dim = ''3D'', grid = GridTag ''W'', units = ''m'', long_name = ''W-cell thickness'', dependencies = None\<rparr>),
     (''wo'', \<lparr>dim = ''3D'', grid = GridTag ''W'', units = ''m/s'', long_name = ''Ocean vertical velocity'', dependencies = None\<rparr>),
     (''difvho'', \<lparr>dim = ''3D'', grid = GridTag ''W'', units = ''m^2/s'', long_name = ''Vertical eddy diffusivity'', dependencies = None\<rparr>),
     (''vovematr'', \<lparr>dim = ''3D'', grid = GridTag ''W'', units = ''kg/s'', long_name = ''Vertical mass transport'', dependencies = None\<rparr>),
     (''av_wave'', \<lparr>dim = ''3D'', grid = GridTag ''W'', units = ''m^2/s'', long_name = ''Internal wave-induced vertical diffusivity'', dependencies = None\<rparr>),
     (''bn2'', \<lparr>dim = ''3D'', grid = GridTag ''W'', units = ''1/s^2'', long_name = ''Squared Brunt-Vaisala frequency'', dependencies = None\<rparr>),
     (''bflx_iwm'', \<lparr>dim = ''3D'', grid = GridTag ''W'', units = ''W/kg'', long_name = ''Internal wave-induced buoyancy flux'', dependencies = None\<rparr>),
     (''pcmap_iwm'', \<lparr>dim = ''2D'', grid = GridTag ''W'', units = ''W/m^2'', long_name = ''Power consumption by wave-driven mixing'', dependencies = None\<rparr>),
     (''emix_iwm'', \<lparr>dim = ''3D'', grid = GridTag ''W'', units = ''W/kg'', long_name = ''Power density available for mixing'', dependencies = None\<rparr>),
     (''av_ratio'', \<lparr>dim = ''3D'', grid = GridTag ''W'', units = ''-'', long_name = ''S over T diffusivity ratio'', dependencies = None\<rparr>),
     (''keos'', \<lparr>dim = ''2D'', grid = GridList [''U'', ''V''], units = ''m^2/s^2'', long_name = ''Surface Kinetic Energy'', dependencies = Some [''uos'', ''vos'']\<rparr>),
     (''keoh'', \<lparr>dim = ''3D'', grid = GridList [''U'', ''V''], units = ''m^2/s^2'', long_name = ''Horizontal Kinetic Energy'', dependencies = Some [''uo'', ''vo'']\<rparr>),
     (''keo'', \<lparr>dim = ''3D'', grid = GridList [''U'', ''V'', ''W''], units = ''m^2/s^2'', long_name = ''Total Kinetic Energy'', dependencies = Some [''uo'', ''vo'', ''wo'']\<rparr>),
     (''rho'', \<lparr>dim = ''3D'', grid = GridList [''T'', ''T''], units = ''kg/m^3'', long_name = ''Potential Density'', dependencies = Some [''thetao'', ''so'']\<rparr>),
     (''woto'', \<lparr>dim = ''3D'', grid = GridList [''T'', ''W''], units = ''K*m/s'', long_name = ''Buoyancy flux'', dependencies = Some [''thetao'', ''wo'']\<rparr>)]"

text \<open>
  \<open>vardict(component)\<close> binds its local \<open>list\<close> only for the component \<open>nemo\<close>; for
  any other component \<open>return list\<close> reads an unbound local.
\<close>

definition vardict :: "string \<Rightarrow> py_error + (string \<times> var_entry) list" where
  "vardict component =
     (if component = ''nemo'' then Inr nemo_list else Inl UnboundLocalError)"

text \<open>
  The value a caller holds after \<open>vardict('nemo')[varname]\<close> is the whole entry, a
  dictionary. Python's \<open>==\<close> between a dictionary and a string is \<open>False\<close>.
\<close>

datatype ndim_val = NDict var_entry | NStr string

fun py_eq_str :: "ndim_val \<Rightarrow> string \<Rightarrow> bool" where
  "py_eq_str (NStr s) t = (s = t)"
| "py_eq_str (NDict e) t = False"

text \<open>The lookup \<open>vardict('nemo')[varname]\<close>: a missing key raises \<open>KeyError\<close>.\<close>

definition lookup_var :: "string \<Rightarrow> py_error + ndim_val" where
  "lookup_var varname =
     bind_err (vardict ''nemo'') (\<lambda>cat.
       case map_of cat varname of None \<Rightarrow> Inl KeyError | Some e \<Rightarrow> Inr (NDict e))"

section \<open>The environment: other modules and the array library\<close>

text \<open>The directory roles \<open>folders(expname)\<close> returns, as far as these modules read them.\<close>

record dirs =
  perm :: string
  osprey :: string
  tmp :: string

text \<open>
  The functions imported from modules outside this development (\<open>folders\<close>, \<open>elements\<close>,
  \<open>reader_nemo\<close>, \<open>cost\<close>, \<open>spacemean\<close>, \<open>timemean\<close>, \<open>get_decimal_year\<close>,
  \<open>get_forecast_year\<close>, \<open>catalogue.observables\<close>), the array library, the YAML loader,
  the calendar library and the subprocess call are the fields of an environment. Python
  is dynamically typed: \<open>'o\<close> is the type of every object these functions take and
  return (datasets, arrays, dates), \<open>'f\<close> the contents of a NetCDF file and \<open>'n\<close> the
  type of the floats (float64).
  \<^item> \<open>load_meanfield\<close> opens and parses \<open>meanfield.yaml\<close> and gives the experiment name,
    start year and end year under the key \<open>meanfield\<close>, or \<open>None\<close> when the key is absent.
  \<^item> \<open>nc_read\<close> is the decoding of a file that exists by \<open>xr.open_dataset\<close> or
    \<open>xr.open_mfdataset\<close>: it raises on contents that are not a readable dataset.
  \<^item> \<open>dims_of\<close> gives the names of the dimensions of an array or dataset.
  \<^item> \<open>float_literal\<close> is the value of a float literal of the source, \<open>py_float\<close> is
    \<open>float\<close> on a string, \<open>f_add\<close>, \<open>f_div\<close> and \<open>f_less\<close> are \<open>+\<close>, \<open>/\<close> and \<open><\<close> on
    floats, and \<open>np_sum\<close> is \<open>np.sum\<close>.
\<close>

record ('o, 'f, 'n) env =
  folders :: "string \<Rightarrow> dirs"
  elements :: "string \<Rightarrow> py_error + 'o"
  reader_nemo :: "string \<Rightarrow> int \<Rightarrow> int \<Rightarrow> py_error + 'o"
  cost :: "'o \<Rightarrow> 'o \<Rightarrow> string \<Rightarrow> py_error + 'o"
  load_meanfield :: "string \<Rightarrow> py_error + (string \<times> int \<times> int) option"
  spacemean :: "'o \<Rightarrow> string \<Rightarrow> ndim_val \<Rightarrow> string option \<Rightarrow> py_error + 'o"
  timemean :: "'o \<Rightarrow> string \<Rightarrow> py_error + 'o"
  get_decimal_year :: "'o list \<Rightarrow> py_error + 'o list"
  get_forecast_year :: "int \<Rightarrow> int \<Rightarrow> py_error + int"
  observables :: "string \<Rightarrow> py_error + (string \<times> var_entry) list"
  time_values :: "'o \<Rightarrow> py_error + 'o list"
  np_array :: "'o list \<Rightarrow> 'o"
  getitem :: "'o \<Rightarrow> string \<Rightarrow> py_error + 'o"
  setitem :: "'o \<Rightarrow> string \<Rightarrow> 'o \<Rightarrow> py_error + 'o"
  weighted_mean :: "'o \<Rightarrow> 'o \<Rightarrow> py_error + 'o"
  xr_Dataset :: "string \<Rightarrow> (string \<times> 'o) list \<Rightarrow> 'o \<Rightarrow> string \<Rightarrow> py_error + 'o"
  xr_DataArray :: "'o list \<Rightarrow> string \<Rightarrow> py_error + 'o"
  rename_dims :: "(string \<times> string) list \<Rightarrow> 'o \<Rightarrow> py_error + 'o"
  rename :: "(string \<times> string) list \<Rightarrow> 'o \<Rightarrow> py_error + 'o"
  drop_vars :: "string list \<Rightarrow> 'o \<Rightarrow> py_error + 'o"
  isel :: "(string \<times> int) list \<Rightarrow> 'o \<Rightarrow> py_error + 'o"
  polyfit :: "'o \<Rightarrow> string \<Rightarrow> nat \<Rightarrow> bool \<Rightarrow> py_error + 'o"
  polyval :: "'o \<Rightarrow> 'o \<Rightarrow> py_error + 'o"
  unpack_pair :: "'o \<Rightarrow> py_error + ('o \<times> 'o)"
  x_mul :: "'o \<Rightarrow> 'o \<Rightarrow> py_error + 'o"
  x_mul_int :: "'o \<Rightarrow> int \<Rightarrow> py_error + 'o"
  x_add :: "'o \<Rightarrow> 'o \<Rightarrow> py_error + 'o"
  transpose_dims :: "string list \<Rightarrow> 'o \<Rightarrow> py_error + 'o"
  DatetimeGregorian :: "int \<Rightarrow> int \<Rightarrow> int \<Rightarrow> int \<Rightarrow> int \<Rightarrow> int \<Rightarrow> py_error + 'o"
  dims_of :: "'o \<Rightarrow> string list"
  check_output :: "string \<Rightarrow> py_error + ustring"
  py_float :: "ustring \<Rightarrow> py_error + 'n"
  float_literal :: "string \<Rightarrow> 'n"
  f_add :: "'n \<Rightarrow> 'n \<Rightarrow> 'n"
  f_div :: "'n \<Rightarrow> 'n \<Rightarrow> 'n"
  f_less :: "'n \<Rightarrow> 'n \<Rightarrow> bool"
  np_sum :: "'n list \<Rightarrow> 'n"
  nc_write :: "'o \<Rightarrow> 'f"
  nc_read :: "'f \<Rightarrow> py_error + 'o"

text \<open>
  The files are a map from path to contents. Beside it the world keeps the sequence of
  calls that read raw output, combine with a reference, average, run a command or touch
  a file, in the order the program makes them.
\<close>

datatype event =
    OpenDataset string
  | OpenMfdataset string
  | ReaderNemo string int int
  | LoadYaml string
  | Cost string
  | Averaging string string
  | Makedirs string
  | RemoveFile string
  | ToNetcdf string
  | CheckOutput string

record 'f world =
  files :: "string \<rightharpoonup> 'f"
  trace :: "event list"

definition log_event :: "event \<Rightarrow> 'f world \<Rightarrow> 'f world" where
  "log_event ev w = w\<lparr>trace := trace w @ [ev]\<rparr>"

definition to_netcdf :: "('o, 'f, 'n) env \<Rightarrow> 'o \<Rightarrow> string \<Rightarrow> 'f world \<Rightarrow> 'f world" where
  "to_netcdf E ds filename w =
     log_event (ToNetcdf filename) (w\<lparr>files := (files w)(filename \<mapsto> nc_write E ds)\<rparr>)"

text \<open>
  Modelled from the spec: \<open>remove_existing_file\<close> and \<open>remove_existing_filelist\<close> of
  \<open>osprey.utils.utils\<close> are not among the sources; a product is written "replacing any
  prior file at that path", so the helpers delete the file at the path when there is one.
\<close>

definition remove_existing_file :: "string \<Rightarrow> 'f world \<Rightarrow> 'f world" where
  "remove_existing_file filename w =
     log_event (RemoveFile filename) (w\<lparr>files := (files w)(filename := None)\<rparr>)"

definition remove_existing_filelist :: "string \<Rightarrow> 'f world \<Rightarrow> 'f world" where
  "remove_existing_filelist filename w =
     log_event (RemoveFile filename) (w\<lparr>files := (files w)(filename := None)\<rparr>)"

section \<open>The post-reader (\<open>osprey/actions/post_reader.py\<close>)\<close>

text \<open>
  \<open>varlabel\<close> is a variable name, optionally followed by \<open>-\<close> and a subregion:
  \<open>varlabel.split('-', 1)\<close> cuts at the first dash.
\<close>

definition split_varlabel :: "string \<Rightarrow> string \<times> string option" where
  "split_varlabel varlabel =
     (if CHR ''-'' \<in> set varlabel
      then (takeWhile (\<lambda>c. c \<noteq> CHR ''-'') varlabel,
            Some (tl (dropWhile (\<lambda>c. c \<noteq> CHR ''-'') varlabel)))
      else (varlabel, None))"

subsection \<open>\<open>averaging\<close>\<close>

text \<open>
  \<open>averaging\<close> is a sequence of independent \<open>if\<close> statements, each of which assigns the
  local \<open>ds\<close> when its condition holds, followed by \<open>return ds\<close>. Each statement is a
  function from the binding of \<open>ds\<close> before it to the binding after it. \<open>data['time'].values\<close>
  is \<open>time_values\<close>; the other items of \<open>data\<close> are read with \<open>getitem\<close>. The last two
  arguments of \<open>xr_Dataset\<close> are the dataset and the variable whose units and long name
  the product carries.
\<close>

definition decimal_time :: "('o, 'f, 'n) env \<Rightarrow> 'o \<Rightarrow> py_error + 'o" where
  "decimal_time E data =
     bind_err (time_values E data) (\<lambda>tv.
     bind_err (get_decimal_year E tv) (\<lambda>tvec. Inr (np_array E tvec)))"

definition avg_timeseries ::
  "('o, 'f, 'n) env \<Rightarrow> 'o \<Rightarrow> string \<Rightarrow> string \<Rightarrow> ndim_val \<Rightarrow> string option \<Rightarrow>
   string \<Rightarrow> 'o option \<Rightarrow> py_error + 'o option" where
  "avg_timeseries E data varlabel varname ndim subregion diagname ds =
     (if diagname = ''timeseries'' then
        bind_err (decimal_time E data) (\<lambda>tvec.
        bind_err (spacemean E data varname ndim subregion) (\<lambda>vec.
        bind_err (xr_Dataset E ''ECE4/NEMO averaged timeseries data''
                    [(''time'', tvec), (varlabel, vec)] data varname) (\<lambda>d.
        Inr (Some d))))
      else Inr ds)"

definition avg_profile ::
  "('o, 'f, 'n) env \<Rightarrow> 'o \<Rightarrow> string \<Rightarrow> ndim_val \<Rightarrow> 'o \<Rightarrow>
   string \<Rightarrow> 'o option \<Rightarrow> py_error + 'o option" where
  "avg_profile E data varname ndim df diagname ds =
     (if diagname = ''profile'' \<and> py_eq_str ndim ''3D'' then
        bind_err (getitem E data ''z'') (\<lambda>zvec.
        bind_err (getitem E data varname) (\<lambda>var.
        bind_err (getitem E df ''area'') (\<lambda>area.
        bind_err (weighted_mean E var area) (\<lambda>vec.
        bind_err (xr_Dataset E ''ECE4/NEMO averaged profiles''
                    [(''z'', zvec), (varname, vec)] data varname) (\<lambda>d.
        Inr (Some d))))))
      else Inr ds)"

definition avg_hovmoller ::
  "('o, 'f, 'n) env \<Rightarrow> 'o \<Rightarrow> string \<Rightarrow> string \<Rightarrow> ndim_val \<Rightarrow>
   string \<Rightarrow> 'o option \<Rightarrow> py_error + 'o option" where
  "avg_hovmoller E data varlabel varname ndim diagname ds =
     (if diagname = ''hovmoller'' \<and> py_eq_str ndim ''3D'' then
        bind_err (decimal_time E data) (\<lambda>tvec.
        bind_err (spacemean E data varname (NStr ''2D'') None) (\<lambda>vec.
        bind_err (getitem E data ''z'') (\<lambda>z.
        bind_err (xr_Dataset E ''ECE4/NEMO averaged hovmoller diagram''
                    [(''time'', tvec), (''z'', z), (varlabel, vec)] data varname) (\<lambda>d.
        Inr (Some d)))))
      else Inr ds)"

text \<open>
  The \<open>map\<close> statement binds its local \<open>vec\<close> in two inner \<open>if\<close> statements and reads it
  when it builds the dataset, after the latitude and longitude.
\<close>

definition avg_map ::
  "('o, 'f, 'n) env \<Rightarrow> 'o \<Rightarrow> string \<Rightarrow> string \<Rightarrow> ndim_val \<Rightarrow>
   string \<Rightarrow> 'o option \<Rightarrow> py_error + 'o option" where
  "avg_map E data varlabel varname ndim diagname ds =
     (if diagname = ''map'' then
        bind_err (if py_eq_str ndim ''2D''
                  then bind_err (timemean E data varname) (\<lambda>v. Inr (Some v))
                  else Inr None) (\<lambda>vec1.
        bind_err (if py_eq_str ndim ''3D''
                  then bind_err (spacemean E data varname ndim None) (\<lambda>v. Inr (Some v))
                  else Inr vec1) (\<lambda>vec2.
        bind_err (getitem E data ''lat'') (\<lambda>lat.
        bind_err (getitem E data ''lon'') (\<lambda>lon.
        bind_err (read_local vec2) (\<lambda>vec.
        bind_err (xr_Dataset E ''ECE4/NEMO averaged map''
                    [(''lat'', lat), (''lon'', lon), (varlabel, vec)] data varname) (\<lambda>d.
        Inr (Some d)))))))
      else Inr ds)"

definition avg_field3 ::
  "('o, 'f, 'n) env \<Rightarrow> 'o \<Rightarrow> string \<Rightarrow> string \<Rightarrow> ndim_val \<Rightarrow>
   string \<Rightarrow> 'o option \<Rightarrow> py_error + 'o option" where
  "avg_field3 E data varlabel varname ndim diagname ds =
     (if diagname = ''field'' \<and> py_eq_str ndim ''3D'' then
        bind_err (timemean E data varname) (\<lambda>vec.
        bind_err (getitem E data ''lat'') (\<lambda>lat.
        bind_err (getitem E data ''lon'') (\<lambda>lon.
        bind_err (getitem E data ''z'') (\<lambda>z.
        bind_err (xr_Dataset E ''ECE4/NEMO time-averaged field''
                    [(''lat'', lat), (''lon'', lon), (''z'', z), (varlabel, vec)]
                    data varname) (\<lambda>d.
        Inr (Some d))))))
      else Inr ds)"

definition avg_field2 ::
  "('o, 'f, 'n) env \<Rightarrow> 'o \<Rightarrow> string \<Rightarrow> string \<Rightarrow> ndim_val \<Rightarrow>
   string \<Rightarrow> 'o option \<Rightarrow> py_error + 'o option" where
  "avg_field2 E data varlabel varname ndim diagname ds =
     (if diagname = ''field'' \<and> py_eq_str ndim ''2D'' then
        bind_err (timemean E data varname) (\<lambda>vec.
        bind_err (getitem E data ''lat'') (\<lambda>lat.
        bind_err (getitem E data ''lon'') (\<lambda>lon.
        bind_err (xr_Dataset E ''ECE4/NEMO time-averaged field''
                    [(''lat'', lat), (''lon'', lon), (varlabel, vec)] data varname) (\<lambda>d.
        Inr (Some d)))))
      else Inr ds)"

definition averaging ::
  "('o, 'f, 'n) env \<Rightarrow> string \<Rightarrow> 'o \<Rightarrow> string \<Rightarrow> string \<Rightarrow> py_error + 'o" where
  "averaging E expname data varlabel diagname =
     (case split_varlabel varlabel of (varname, subregion) \<Rightarrow>
        bind_err (elements E expname) (\<lambda>df.
        bind_err (lookup_var varname) (\<lambda>ndim.
        bind_err (avg_timeseries E data varlabel varname ndim subregion diagname None) (\<lambda>ds1.
        bind_err (avg_profile E data varname ndim df diagname ds1) (\<lambda>ds2.
        bind_err (avg_hovmoller E data varlabel varname ndim diagname ds2) (\<lambda>ds3.
        bind_err (avg_map E data varlabel varname ndim diagname ds3) (\<lambda>ds4.
        bind_err (avg_field3 E data varlabel varname ndim diagname ds4) (\<lambda>ds5.
        bind_err (avg_field2 E data varlabel varname ndim diagname ds5) (\<lambda>ds6.
        read_local ds6)))))))))"

subsection \<open>\<open>reader_averaged\<close> and \<open>postreader_averaged\<close>\<close>

definition averaged_filename ::
  "dirs \<Rightarrow> string \<Rightarrow> string \<Rightarrow> string \<Rightarrow> int \<Rightarrow> int \<Rightarrow> string" where
  "averaged_filename ds diagname varlabel metrics startyear endyear =
     path_join (perm ds)
       (diagname @ ''_'' @ varlabel @ ''_'' @ metrics @ ''_'' @ py_str_int startyear
          @ ''-'' @ py_str_int endyear @ ''.nc'')"

text \<open>
  \<open>xr.open_dataset\<close>: a path with no file raises \<open>FileNotFoundError\<close>; a file that
  exists is decoded, which can raise.
\<close>

definition reader_averaged ::
  "('o, 'f, 'n) env \<Rightarrow> 'f world \<Rightarrow> string \<Rightarrow> int \<Rightarrow> int \<Rightarrow> string \<Rightarrow> string \<Rightarrow>
   string \<Rightarrow> (py_error + 'o) \<times> 'f world" where
  "reader_averaged E w expname startyear endyear varlabel diagname metrics =
     (let filename = averaged_filename (folders E expname) diagname varlabel metrics
                       startyear endyear;
          w1 = log_event (OpenDataset filename) w
      in case files w filename of
           None \<Rightarrow> (Inl FileNotFoundError, w1)
         | Some f \<Rightarrow> (nc_read E f, w1))"

text \<open>
  The block under \<open>if metrics != 'base'\<close>: the locals \<open>exp0\<close>, \<open>y0\<close>, \<open>y1\<close> are bound only
  when the configuration has the key \<open>meanfield\<close>, and are read by the call that loads
  the reference product.
\<close>

definition combine_reference ::
  "('o, 'f, 'n) env \<Rightarrow> 'f world \<Rightarrow> dirs \<Rightarrow> string \<Rightarrow> string \<Rightarrow> 'o \<Rightarrow>
   (py_error + 'o) \<times> 'f world" where
  "combine_reference E w ds varlabel metrics xdata =
     (let filename = path_join (osprey ds) ''meanfield.yaml'';
          w1 = log_event (LoadYaml filename) w
      in case load_meanfield E filename of
           Inl e \<Rightarrow> (Inl e, w1)
         | Inr config \<Rightarrow>
             (case read_local config of
                Inl e \<Rightarrow> (Inl e, w1)
              | Inr (exp0, y0, y1) \<Rightarrow>
                  (case reader_averaged E w1 exp0 y0 y1 varlabel ''field'' ''base'' of
                     (Inl e, w2) \<Rightarrow> (Inl e, w2)
                   | (Inr mdata, w2) \<Rightarrow>
                       (cost E xdata mdata metrics, log_event (Cost metrics) w2))))"

text \<open>Everything after the \<open>try\<close> statement: the path that computes the product.\<close>

definition recompute ::
  "('o, 'f, 'n) env \<Rightarrow> 'f world \<Rightarrow> string \<Rightarrow> int \<Rightarrow> int \<Rightarrow> string \<Rightarrow> string \<Rightarrow>
   bool \<Rightarrow> string \<Rightarrow> (py_error + 'o) \<times> 'f world" where
  "recompute E w expname startyear endyear varlabel diagname replace metrics =
     (let ds = folders E expname;
          w1 = log_event (ReaderNemo expname startyear endyear) w
      in case reader_nemo E expname startyear endyear of
           Inl e \<Rightarrow> (Inl e, w1)
         | Inr xdata0 \<Rightarrow>
             (case (if metrics \<noteq> ''base''
                    then combine_reference E w1 ds varlabel metrics xdata0
                    else (Inr xdata0, w1)) of
                (Inl e, w2) \<Rightarrow> (Inl e, w2)
              | (Inr xdata, w2) \<Rightarrow>
                  (let w3 = log_event (Averaging varlabel diagname) w2
                   in case averaging E expname xdata varlabel diagname of
                        Inl e \<Rightarrow> (Inl e, w3)
                      | Inr product \<Rightarrow>
                          (let w4 = log_event (Makedirs (perm ds)) w3;
                               filename = averaged_filename ds diagname varlabel metrics
                                            startyear endyear;
                               w5 = (if replace then remove_existing_file filename w4 else w4);
                               w6 = to_netcdf E product filename w5
                           in reader_averaged E w6 expname startyear endyear varlabel
                                diagname metrics))))"

definition postreader_averaged ::
  "('o, 'f, 'n) env \<Rightarrow> 'f world \<Rightarrow> string \<Rightarrow> int \<Rightarrow> int \<Rightarrow> string \<Rightarrow> string \<Rightarrow>
   bool \<Rightarrow> string \<Rightarrow> (py_error + 'o) \<times> 'f world" where
  "postreader_averaged E w expname startyear endyear varlabel diagname replace metrics =
     (case split_varlabel varlabel of (varname, subregion) \<Rightarrow>
        (case elements E expname of
           Inl e \<Rightarrow> (Inl e, w)
         | Inr df \<Rightarrow>
             (case lookup_var varname of
                Inl e \<Rightarrow> (Inl e, w)
              | Inr ndim \<Rightarrow>
                  (if \<not> replace then
                     (case reader_averaged E w expname startyear endyear varlabel
                             diagname metrics of
                        (Inr data, w1) \<Rightarrow> (Inr data, w1)
                      | (Inl FileNotFoundError, w1) \<Rightarrow>
                          recompute E w1 expname startyear endyear varlabel diagname
                            replace metrics
                      | (Inl e, w1) \<Rightarrow> (Inl e, w1))
                   else recompute E w expname startyear endyear varlabel diagname
                          replace metrics))))"

subsection \<open>\<open>reader_restart\<close>\<close>

text \<open>
  \<open>get_leg\<close>, \<open>reader_rebuilt\<close> and \<open>rebuilder\<close> come from other modules; the last two
  work on the restart files of an experiment, a store of type \<open>'s\<close>. \<open>rebuilder\<close> gives
  the exception it raised, if any, and the store it leaves. The restart world keeps the
  store and the calls made on it.
\<close>

datatype rcall = ReaderRebuilt string int int | Rebuilder string int

record 's rworld =
  store :: 's
  calls :: "rcall list"

record ('o, 's) renv =
  get_leg :: "int \<Rightarrow> int"
  reader_rebuilt :: "string \<Rightarrow> int \<Rightarrow> int \<Rightarrow> 's \<Rightarrow> py_error + 'o"
  rebuilder :: "string \<Rightarrow> int \<Rightarrow> 's \<Rightarrow> py_error option \<times> 's"

definition call_reader_rebuilt ::
  "('o, 's) renv \<Rightarrow> string \<Rightarrow> int \<Rightarrow> int \<Rightarrow> 's rworld \<Rightarrow> (py_error + 'o) \<times> 's rworld" where
  "call_reader_rebuilt R expname startleg endleg w =
     (reader_rebuilt R expname startleg endleg (store w),
      w\<lparr>calls := calls w @ [ReaderRebuilt expname startleg endleg]\<rparr>)"

text \<open>The loop \<open>for leg in range(startleg, endleg+1): rebuilder(expname, leg)\<close>.\<close>

fun rebuild_legs ::
  "('o, 's) renv \<Rightarrow> string \<Rightarrow> int list \<Rightarrow> 's rworld \<Rightarrow> py_error option \<times> 's rworld" where
  "rebuild_legs R expname [] w = (None, w)"
| "rebuild_legs R expname (leg # legs) w =
     (case rebuilder R expname leg (store w) of
        (Some e, s) \<Rightarrow> (Some e, \<lparr>store = s, calls = calls w @ [Rebuilder expname leg]\<rparr>)
      | (None, s) \<Rightarrow>
          rebuild_legs R expname legs \<lparr>store = s, calls = calls w @ [Rebuilder expname leg]\<rparr>)"

definition reader_restart ::
  "('o, 's) renv \<Rightarrow> string \<Rightarrow> int \<Rightarrow> int \<Rightarrow> 's rworld \<Rightarrow> (py_error + 'o) \<times> 's rworld" where
  "reader_restart R expname startyear endyear w =
     (let startleg = get_leg R startyear;
          endleg = get_leg R endyear
      in case call_reader_rebuilt R expname startleg endleg w of
           (Inr data, w1) \<Rightarrow> (Inr data, w1)
         | (Inl FileNotFoundError, w1) \<Rightarrow>
             (case rebuild_legs R expname [startleg..endleg] w1 of
                (Some e, w2) \<Rightarrow> (Inl e, w2)
              | (None, w2) \<Rightarrow> call_reader_rebuilt R expname startleg endleg w2)
         | (Inl e, w1) \<Rightarrow> (Inl e, w1))"

section \<open>The EOF projector (\<open>osprey/means/eof.py\<close>)\<close>

definition forecast_xarray :: "('o, 'f, 'n) env \<Rightarrow> int \<Rightarrow> bool \<Rightarrow> py_error + 'o" where
  "forecast_xarray E foreyear use_cftime =
     bind_err (DatetimeGregorian E foreyear 1 16 12 0 0) (\<lambda>fdate0.
     bind_err (if \<not> use_cftime
               then bind_err (get_decimal_year E [fdate0]) (\<lambda>ys. py_index ys 0)
               else Inr fdate0) (\<lambda>fdate.
     xr_DataArray E [fdate] ''time''))"

subsection \<open>\<open>_grid_mapping\<close> and \<open>process_data\<close>\<close>

definition lower :: "string \<Rightarrow> string" where
  "lower s = map (\<lambda>c. if 65 \<le> (of_char c :: nat) \<and> (of_char c :: nat) \<le> 90
                       then char_of (of_char c + (32::nat)) else c) s"

record grid_names =
  gx :: string
  gy :: string
  glat :: string
  glon :: string
  gz :: string

definition grid_mapping :: "string \<Rightarrow> py_error + grid_names" where
  "grid_mapping g =
     (let grid_lower = lower g
      in if g \<in> {''T'', ''U'', ''V'', ''W''}
         then Inr \<lparr>gx = ''x_grid_'' @ g, gy = ''y_grid_'' @ g,
                    glat = ''nav_lat_grid_'' @ g, glon = ''nav_lon_grid_'' @ g,
                    gz = ''depth'' @ grid_lower\<rparr>
         else Inl ValueError)"

text \<open>
  \<open>grid not in {'T', 'U', 'V', 'W'}\<close> hashes \<open>grid\<close>: a list of tags is not hashable and
  raises \<open>TypeError\<close>.
\<close>

definition process_data ::
  "('o, 'f, 'n) env \<Rightarrow> 'o \<Rightarrow> string \<Rightarrow> string \<Rightarrow> grid_val \<Rightarrow> py_error + 'o" where
  "process_data E data ftype dm grd =
     (if dm \<notin> {''2D'', ''3D''} then Inl ValueError
      else case grd of
        GridList gs \<Rightarrow> Inl TypeError
      | GridTag g \<Rightarrow>
          if g \<notin> {''T'', ''U'', ''V'', ''W''} then Inl ValueError
          else bind_err (grid_mapping g) (\<lambda>gm.
            if ftype = ''pattern'' then
              bind_err (rename_dims E [(gx gm, ''x''), (gy gm, ''y'')] data) (\<lambda>d1.
              bind_err (rename E [(glat gm, ''lat''), (glon gm, ''lon'')] d1) (\<lambda>d2.
              bind_err (rename E [(''time_counter'', ''time'')] d2) (\<lambda>d3.
              bind_err (drop_vars E [''time_counter_bnds''] d3) (\<lambda>d4.
              if dm = ''3D'' then
                bind_err (rename E [(gz gm, ''z'')] d4) (\<lambda>d5.
                drop_vars E [gz gm @ ''_bnds''] d5)
              else Inr d4))))
            else if ftype = ''series'' then
              bind_err (rename E [(''time_counter'', ''time'')] data) (\<lambda>d1.
              bind_err (isel E [(''lon'', 0), (''lat'', 0)] d1) (\<lambda>d2.
              bind_err (drop_vars E [''time_counter_bnds'', ''lon'', ''lat''] d2) (\<lambda>d3.
              if dm = ''3D'' then
                bind_err (isel E [(''zaxis_Reduced'', 0)] d3) (\<lambda>d4.
                drop_vars E [''zaxis_Reduced''] d4)
              else Inr d3)))
            else if ftype = ''post'' then
              bind_err (rename E [(''time'', ''time_counter'')] data) (\<lambda>d1.
              if dm = ''3D'' then rename E [(''z'', ''nav_lev'')] d1 else Inr d1)
            else Inl ValueError))"

text \<open>
  \<open>xr.open_mfdataset(filename, preprocess=...)\<close>: no file at the path raises \<open>OSError\<close>;
  the file is decoded and the preprocessing function is applied to the dataset read.
\<close>

definition open_mfdataset ::
  "('o, 'f, 'n) env \<Rightarrow> 'f world \<Rightarrow> string \<Rightarrow> string \<Rightarrow> var_entry \<Rightarrow>
   (py_error + 'o) \<times> 'f world" where
  "open_mfdataset E w filename ftype info =
     (let w1 = log_event (OpenMfdataset filename) w
      in case files w filename of
           None \<Rightarrow> (Inl OSError, w1)
         | Some f \<Rightarrow>
             (bind_err (nc_read E f) (\<lambda>data. process_data E data ftype (dim info) (grid info)),
              w1))"

subsection \<open>The loops of \<open>project_eofs\<close>\<close>

definition leg_file :: "dirs \<Rightarrow> int \<Rightarrow> string \<Rightarrow> string" where
  "leg_file ds endleg name = path_join (path_join (tmp ds) (zfill (py_str_int endleg) 3)) name"

definition series_file :: "dirs \<Rightarrow> int \<Rightarrow> string \<Rightarrow> int \<Rightarrow> string" where
  "series_file ds endleg varname i =
     leg_file ds endleg (varname @ ''_series_'' @ zfill (py_str_int i) 5 @ ''.nc'')"

text \<open>
  The statements \<open>basis = pattern.isel(time=i)\<close> and \<open>field += theta * basis\<close>, which end
  the body of every loop.
\<close>

definition accumulate ::
  "('o, 'f, 'n) env \<Rightarrow> 'o \<Rightarrow> 'o \<Rightarrow> int \<Rightarrow> 'o \<Rightarrow> py_error + 'o" where
  "accumulate E pattern theta i field =
     bind_err (isel E [(''time'', i)] pattern) (\<lambda>basis.
     bind_err (x_mul E theta basis) (\<lambda>term.
     x_add E field term))"

text \<open>
  The fit of modes \<open>full\<close> and \<open>first\<close>: the time axis of the series is replaced by decimal
  years, a polynomial of degree 1 is fitted along \<open>time\<close> with \<open>skipna=True\<close>, its two
  coefficients are unpacked for printing, and the fit is evaluated at \<open>xf\<close>.
\<close>

definition fit_decimal ::
  "('o, 'f, 'n) env \<Rightarrow> string \<Rightarrow> 'o \<Rightarrow> 'o \<Rightarrow> py_error + 'o" where
  "fit_decimal E varname xf timeseries =
     bind_err (time_values E timeseries) (\<lambda>tv.
     bind_err (get_decimal_year E tv) (\<lambda>new_time.
     bind_err (setitem E timeseries ''time'' (np_array E new_time)) (\<lambda>ts.
     bind_err (polyfit E ts ''time'' 1 True) (\<lambda>p.
     bind_err (getitem E p (varname @ ''_polyfit_coefficients'')) (\<lambda>coeffs.
     bind_err (unpack_pair E coeffs) (\<lambda>mq.
     polyval E xf coeffs))))))"

definition full_body ::
  "('o, 'f, 'n) env \<Rightarrow> var_entry \<Rightarrow> string \<Rightarrow> 'o \<Rightarrow> 'o \<Rightarrow> 'o \<Rightarrow>
   string \<Rightarrow> int \<Rightarrow> 'o \<times> 'f world \<Rightarrow> (py_error + 'o) \<times> 'f world" where
  "full_body E info varname pattern xf yf filename i fw =
     (case open_mfdataset E (snd fw) filename ''series'' info of
        (Inl e, w1) \<Rightarrow> (Inl e, w1)
      | (Inr timeseries, w1) \<Rightarrow>
          (bind_err (fit_decimal E varname xf timeseries) (\<lambda>theta.
           bind_err (accumulate E pattern theta i (fst fw)) (\<lambda>field.
           setitem E field ''time'' yf)), w1))"

definition reco_body ::
  "('o, 'f, 'n) env \<Rightarrow> dirs \<Rightarrow> var_entry \<Rightarrow> string \<Rightarrow> int \<Rightarrow> 'o \<Rightarrow>
   int \<Rightarrow> 'o \<times> 'f world \<Rightarrow> (py_error + 'o) \<times> 'f world" where
  "reco_body E ds info varname endleg pattern i fw =
     (case open_mfdataset E (snd fw) (series_file ds endleg varname i) ''series'' info of
        (Inl e, w1) \<Rightarrow> (Inl e, w1)
      | (Inr timeseries, w1) \<Rightarrow>
          (bind_err (getitem E timeseries varname) (\<lambda>series.
           bind_err (isel E [(''time'', - 1)] series) (\<lambda>theta.
           accumulate E pattern theta i (fst fw))), w1))"

text \<open>
  The body of the loop of mode \<open>frac\<close> fits along the time axis as it was read, without
  the conversion to decimal years.
\<close>

definition frac_body ::
  "('o, 'f, 'n) env \<Rightarrow> dirs \<Rightarrow> var_entry \<Rightarrow> string \<Rightarrow> int \<Rightarrow> 'o \<Rightarrow> 'o \<Rightarrow>
   int \<Rightarrow> 'o \<times> 'f world \<Rightarrow> (py_error + 'o) \<times> 'f world" where
  "frac_body E ds info varname endleg pattern xf i fw =
     (case open_mfdataset E (snd fw) (series_file ds endleg varname i) ''series'' info of
        (Inl e, w1) \<Rightarrow> (Inl e, w1)
      | (Inr timeseries, w1) \<Rightarrow>
          (bind_err (polyfit E timeseries ''time'' 1 True) (\<lambda>p.
           bind_err (getitem E p (varname @ ''_polyfit_coefficients'')) (\<lambda>coeffs.
           bind_err (polyval E xf coeffs) (\<lambda>theta.
           accumulate E pattern theta i (fst fw)))), w1))"

text \<open>
  \<open>for i in range(n)\<close> over a loop body that updates the field and the world: the body
  runs for the indices in order and the first exception ends the loop.
\<close>

fun for_range ::
  "(int \<Rightarrow> 'o \<times> 'f world \<Rightarrow> (py_error + 'o) \<times> 'f world) \<Rightarrow> int list \<Rightarrow>
   'o \<times> 'f world \<Rightarrow> (py_error + 'o) \<times> 'f world" where
  "for_range body [] fw = (Inr (fst fw), snd fw)"
| "for_range body (i # is) fw =
     (case body i fw of
        (Inl e, w1) \<Rightarrow> (Inl e, w1)
      | (Inr field, w1) \<Rightarrow> for_range body is (field, w1))"

definition py_range :: "int \<Rightarrow> int list" where
  "py_range n = [0..n - 1]"

subsection \<open>The variance weights of mode \<open>frac\<close>\<close>

text \<open>
  Every line of the command's output that contains \<open>Mean\<close> gives one weight: the fourth
  field between colons, stripped, read as a float.
\<close>

fun parse_weights :: "('o, 'f, 'n) env \<Rightarrow> ustring list \<Rightarrow> py_error + 'n list" where
  "parse_weights E [] = Inr []"
| "parse_weights E (line # lines) =
     (if py_in (ustr ''Mean'') line then
        bind_err (py_index (py_split 58 line) 3) (\<lambda>field.
        bind_err (py_float E (strip field)) (\<lambda>mean_value.
        bind_err (parse_weights E lines) (\<lambda>weights. Inr (mean_value # weights))))
      else parse_weights E lines)"

text \<open>
  \<open>np.cumsum\<close> adds the weights from the left with the float addition; each partial
  sum is divided by \<open>np.sum(weights)\<close>. The arithmetic is the environment's, so that
  every rounding of float64 is the library's and not the model's.
\<close>

fun accumulate_from :: "('n \<Rightarrow> 'n \<Rightarrow> 'n) \<Rightarrow> 'n \<Rightarrow> 'n list \<Rightarrow> 'n list" where
  "accumulate_from add acc [] = []"
| "accumulate_from add acc (x # xs) = add acc x # accumulate_from add (add acc x) xs"

fun cumsum :: "('o, 'f, 'n) env \<Rightarrow> 'n list \<Rightarrow> 'n list" where
  "cumsum E [] = []"
| "cumsum E (x # xs) = x # accumulate_from (f_add E) x xs"

definition cumulative_weights :: "('o, 'f, 'n) env \<Rightarrow> 'n list \<Rightarrow> 'n list" where
  "cumulative_weights E weights = map (\<lambda>c. f_div E c (np_sum E weights)) (cumsum E weights)"

text \<open>
  \<open>np.searchsorted(a, key)\<close> with the default side: the library's binary search between
  \<open>lo\<close> and \<open>hi\<close>, which compares with \<open><\<close> (the key, a literal, is a number).
\<close>

function binsearch_left :: "('n \<Rightarrow> 'n \<Rightarrow> bool) \<Rightarrow> 'n list \<Rightarrow> 'n \<Rightarrow> nat \<Rightarrow> nat \<Rightarrow> nat" where
  "binsearch_left lt a key lo hi =
     (if lo < hi then
        (let mid = lo + (hi - lo) div 2
         in if lt (a ! mid) key then binsearch_left lt a key (mid + 1) hi
            else binsearch_left lt a key lo mid)
      else lo)"
  by pat_completeness auto
termination
  by (relation "measure (\<lambda>(lt, a, key, lo, hi). hi - lo)") auto

declare binsearch_left.simps [simp del]

definition searchsorted :: "('o, 'f, 'n) env \<Rightarrow> 'n list \<Rightarrow> 'n \<Rightarrow> nat" where
  "searchsorted E a key = binsearch_left (f_less E) a key 0 (length a)"

definition threshold_percentage :: "('o, 'f, 'n) env \<Rightarrow> 'n" where
  "threshold_percentage E = float_literal E ''0.9''"

definition feofs_of :: "('o, 'f, 'n) env \<Rightarrow> 'n list \<Rightarrow> nat" where
  "feofs_of E weights =
     searchsorted E (cumulative_weights E weights) (threshold_percentage E) + 1"

subsection \<open>\<open>project_eofs\<close>\<close>

definition cdo_command :: "string \<Rightarrow> string" where
  "cdo_command varname =
     ''cdo info -div '' @ varname @ ''_variance.nc -timsum '' @ varname @ ''_variance.nc''"

definition frac_mode ::
  "('o, 'f, 'n) env \<Rightarrow> dirs \<Rightarrow> var_entry \<Rightarrow> string \<Rightarrow> int \<Rightarrow> 'o \<Rightarrow> 'o \<Rightarrow>
   'o \<times> 'f world \<Rightarrow> (py_error + 'o) \<times> 'f world" where
  "frac_mode E ds info varname endleg pattern xf fw =
     (let w1 = log_event (CheckOutput (cdo_command varname)) (snd fw)
      in case check_output E (cdo_command varname) of
           Inl e \<Rightarrow> (Inl e, w1)
         | Inr output \<Rightarrow>
             (case parse_weights E (splitlines output) of
                Inl e \<Rightarrow> (Inl e, w1)
              | Inr weights \<Rightarrow>
                  for_range (frac_body E ds info varname endleg pattern xf)
                    (py_range (int (feofs_of E weights))) (fst fw, w1)))"

definition fit_mode ::
  "('o, 'f, 'n) env \<Rightarrow> dirs \<Rightarrow> var_entry \<Rightarrow> string \<Rightarrow> int \<Rightarrow> 'o \<Rightarrow>
   'o \<times> 'f world \<Rightarrow> (py_error + 'o) \<times> 'f world" where
  "fit_mode E ds info varname endleg xf fw =
     (case open_mfdataset E (snd fw) (leg_file ds endleg (varname @ ''.nc'')) ''pattern'' info of
        (Inl e, w1) \<Rightarrow> (Inl e, w1)
      | (Inr data, w1) \<Rightarrow>
          (bind_err (getitem E data varname) (\<lambda>var.
           bind_err (polyfit E var ''time'' 1 True) (\<lambda>p.
           bind_err (getitem E p ''polyfit_coefficients'') (\<lambda>coeffs.
           polyval E xf coeffs))), w1))"

text \<open>The chain \<open>if mode == 'full' ... elif ...\<close>; no branch runs for any other mode.\<close>

definition eof_mode ::
  "('o, 'f, 'n) env \<Rightarrow> dirs \<Rightarrow> var_entry \<Rightarrow> string \<Rightarrow> int \<Rightarrow> int \<Rightarrow> 'o \<Rightarrow> 'o \<Rightarrow> 'o \<Rightarrow>
   string \<Rightarrow> 'o \<times> 'f world \<Rightarrow> (py_error + 'o) \<times> 'f world" where
  "eof_mode E ds info varname endleg neofs pattern xf yf mode fw =
     (if mode = ''full'' then
        for_range (\<lambda>i. full_body E info varname pattern xf yf
                          (series_file ds endleg varname i) i)
          (py_range neofs) fw
      else if mode = ''first'' then
        full_body E info varname pattern xf yf
          (leg_file ds endleg (varname @ ''_series_00000.nc'')) 0 fw
      else if mode = ''reco'' then
        (case for_range (reco_body E ds info varname endleg pattern) (py_range neofs) fw of
           (Inl e, w1) \<Rightarrow> (Inl e, w1)
         | (Inr field, w1) \<Rightarrow> (drop_vars E [''time''] field, w1))
      else if mode = ''frac'' then frac_mode E ds info varname endleg pattern xf fw
      else if mode = ''fit'' then fit_mode E ds info varname endleg xf fw
      else (Inr (fst fw), snd fw))"

text \<open>The end of \<open>project_eofs\<close>: the axes are put in order and the field is written.\<close>

definition fit_dimensions :: "('o, 'f, 'n) env \<Rightarrow> var_entry \<Rightarrow> 'o \<Rightarrow> py_error + 'o" where
  "fit_dimensions E info field =
     bind_err (if dim info = ''3D''
               then transpose_dims E [''time'', ''z'', ''y'', ''x''] field
               else Inr field) (\<lambda>field1.
     if dim info = ''2D''
     then transpose_dims E [''time'', ''y'', ''x''] field1
     else Inr field1)"

definition write_eof ::
  "('o, 'f, 'n) env \<Rightarrow> dirs \<Rightarrow> var_entry \<Rightarrow> string \<Rightarrow> int \<Rightarrow> 'o \<Rightarrow> 'f world \<Rightarrow>
   (py_error + 'o) \<times> 'f world" where
  "write_eof E ds info varname endleg field0 w =
     (case fit_dimensions E info field0 of
        Inl e \<Rightarrow> (Inl e, w)
      | Inr field \<Rightarrow>
          (let infile = leg_file ds endleg (varname @ ''_eof.nc'');
               w1 = remove_existing_filelist infile w;
               w2 = to_netcdf E field infile w1
           in (Inr field, w2)))"

definition lookup_observable :: "('o, 'f, 'n) env \<Rightarrow> string \<Rightarrow> py_error + var_entry" where
  "lookup_observable E varname =
     bind_err (observables E ''nemo'') (\<lambda>cat.
       case map_of cat varname of None \<Rightarrow> Inl KeyError | Some info \<Rightarrow> Inr info)"

text \<open>
  What \<open>project_eofs\<close> computes before the modes: the historical window, the entry of
  the variable, the forecast time as decimal year \<open>xf\<close> and as date \<open>yf\<close>.
\<close>

record 'o eof_setup =
  setup_neofs :: int
  setup_info :: var_entry
  setup_xf :: 'o
  setup_yf :: 'o

definition eof_setup :: "('o, 'f, 'n) env \<Rightarrow> string \<Rightarrow> int \<Rightarrow> int \<Rightarrow> int \<Rightarrow> py_error + 'o eof_setup" where
  "eof_setup E varname endleg yearspan yearleap =
     (let startleg = endleg - yearspan + 1;
          startyear = 1990 + startleg - 2;
          endyear = 1990 + endleg - 2;
          n = endyear - startyear + 1
      in bind_err (lookup_observable E varname) (\<lambda>entry.
         bind_err (get_forecast_year E endyear yearleap) (\<lambda>foreyear.
         bind_err (forecast_xarray E foreyear False) (\<lambda>x.
         bind_err (forecast_xarray E foreyear True) (\<lambda>y.
         Inr \<lparr>setup_neofs = n, setup_info = entry, setup_xf = x, setup_yf = y\<rparr>)))))"

definition project_eofs ::
  "('o, 'f, 'n) env \<Rightarrow> 'f world \<Rightarrow> string \<Rightarrow> string \<Rightarrow> int \<Rightarrow> int \<Rightarrow> int \<Rightarrow> string \<Rightarrow>
   (py_error + 'o) \<times> 'f world" where
  "project_eofs E w expname varname endleg yearspan yearleap mode =
     (case eof_setup E varname endleg yearspan yearleap of
        Inl e \<Rightarrow> (Inl e, w)
      | Inr s \<Rightarrow>
          (let ds = folders E expname
           in case open_mfdataset E w (leg_file ds endleg (varname @ ''_pattern.nc''))
                     ''pattern'' (setup_info s) of
                (Inl e, w1) \<Rightarrow> (Inl e, w1)
              | (Inr pattern, w1) \<Rightarrow>
                  (case bind_err (isel E [(''time'', 0)] pattern) (\<lambda>p0. x_mul_int E p0 0) of
                     Inl e \<Rightarrow> (Inl e, w1)
                   | Inr field0 \<Rightarrow>
                       (case eof_mode E ds (setup_info s) varname endleg (setup_neofs s) pattern
                               (setup_xf s) (setup_yf s) mode (field0, w1) of
                          (Inl e, w2) \<Rightarrow> (Inl e, w2)
                        | (Inr field, w2) \<Rightarrow>
                            write_eof E ds (setup_info s) varname endleg field w2))))"

section \<open>The rollback tool (\<open>martini/roll_back_ece4.py\<close>)\<close>

text \<open>
  The part of the script that updates \<open>leginfo.yml\<close>. The document holds, under
  \<open>base.context / experiment / schedule / leg\<close>, the number \<open>num\<close> of the current leg and
  its \<open>start\<close> date; \<open>others\<close> is the rest of the document, which the script carries over.
  \<open>py_int\<close> is Python's \<open>int\<close> on a string and \<open>add_years d n\<close> is
  \<open>d + relativedelta(years=n)\<close>.
\<close>

record ('t, 'r) leginfo =
  num :: int
  start :: 't
  others :: 'r

record ('t, 'r) rollback_world =
  legfile :: "('t, 'r) leginfo option"
  dumps :: nat

record 't rollback_env =
  py_int :: "string \<Rightarrow> py_error + int"
  add_years :: "'t \<Rightarrow> int \<Rightarrow> py_error + 't"

definition update_leginfo ::
  "'t rollback_env \<Rightarrow> string \<Rightarrow> ('t, 'r) rollback_world \<Rightarrow>
   (py_error + 't \<times> 't) \<times> ('t, 'r) rollback_world" where
  "update_leginfo R leg w =
     (case legfile w of
        None \<Rightarrow> (Inl FileNotFoundError, w)
      | Some leginfo \<Rightarrow>
          (case py_int R leg of
             Inl e \<Rightarrow> (Inl e, w)
           | Inr n \<Rightarrow>
               (let deltayear = n - num leginfo
                in case add_years R (start leginfo) deltayear of
                     Inl e \<Rightarrow> (Inl e, w)
                   | Inr newdate \<Rightarrow>
                       (let orgdate = start leginfo
                        in if n < num leginfo then
                             (Inr (newdate, orgdate),
                              w\<lparr>legfile := Some (leginfo\<lparr>num := n, start := newdate\<rparr>),
                                 dumps := dumps w + 1\<rparr>)
                           else if n = num leginfo then (Inr (newdate, orgdate), w)
                           else (Inl ValueError, w)))))"

section \<open>Concrete environments\<close>

text \<open>
  Two small environments on which the functions above can be evaluated. In the first
  every object is an integer, a file holds the integer written to it, floats are real
  numbers and the command of mode \<open>frac\<close> prints three lines with a weight and one
  without. In the second an object is the list of the names of its dimensions, and the
  array operations do to the dimensions what the array library does: selecting an index
  along a dimension removes it, a product or a sum has the dimensions of both operands,
  and a transposition raises \<open>ValueError\<close> unless it names exactly the dimensions of its
  argument.
\<close>

definition demo_output :: ustring where
  "demo_output = ustr ''1 : 2 : Mean : 0.75'' @ [10] @ ustr ''header without a value'' @ [10]
      @ ustr ''1 : 2 : Mean : 0.2'' @ [10] @ ustr ''1 : 2 : Mean : 0.05'' @ [10]"

definition demo_float :: "ustring \<Rightarrow> py_error + real" where
  "demo_float s =
     (if s = ustr ''0.75'' then Inr (3 / 4) else if s = ustr ''0.2'' then Inr (1 / 5)
      else if s = ustr ''0.05'' then Inr (1 / 20) else Inl ValueError)"

definition demo_env :: "(int, int, real) env" where
  "demo_env =
     \<lparr>folders = (\<lambda>e. \<lparr>perm = ''/perm/'' @ e, osprey = ''/osprey'', tmp = ''/tmp/'' @ e\<rparr>),
      elements = (\<lambda>e. Inr 0),
      reader_nemo = (\<lambda>e s y. Inr 5),
      cost = (\<lambda>x m t. Inr (x - m)),
      load_meanfield = (\<lambda>p. Inr (Some (''REF0'', 1980, 1989))),
      spacemean = (\<lambda>d v n s. Inr (d + 1)),
      timemean = (\<lambda>d v. Inr (d + 2)),
      get_decimal_year = (\<lambda>ts. Inr ts),
      get_forecast_year = (\<lambda>y l. Inr (y + l)),
      observables = (\<lambda>c. Inr nemo_list),
      time_values = (\<lambda>d. Inr [d]),
      np_array = sum_list,
      getitem = (\<lambda>d k. Inr d),
      setitem = (\<lambda>d k v. Inr d),
      weighted_mean = (\<lambda>d a. Inr d),
      xr_Dataset = (\<lambda>desc vars d v. Inr (sum_list (map snd vars))),
      xr_DataArray = (\<lambda>xs d. Inr (sum_list xs)),
      rename_dims = (\<lambda>m d. Inr d),
      rename = (\<lambda>m d. Inr d),
      drop_vars = (\<lambda>ns d. Inr d),
      isel = (\<lambda>ix d. Inr (d + sum_list (map snd ix))),
      polyfit = (\<lambda>d t deg skipna. Inr (d + int deg)),
      polyval = (\<lambda>x c. Inr (c + x)),
      unpack_pair = (\<lambda>c. Inr (c, c)),
      x_mul = (\<lambda>a b. Inr (a * b)),
      x_mul_int = (\<lambda>a n. Inr (a * n)),
      x_add = (\<lambda>a b. Inr (a + b)),
      transpose_dims = (\<lambda>ds d. Inr d),
      DatetimeGregorian = (\<lambda>y mo d h mi s. Inr y),
      dims_of = (\<lambda>d. []),
      check_output = (\<lambda>c. Inr demo_output),
      py_float = demo_float,
      float_literal = (\<lambda>s. if s = ''0.9'' then 9 / 10 else 0),
      f_add = (\<lambda>a b. a + b),
      f_div = (\<lambda>a b. a / b),
      f_less = (\<lambda>a b. a < b),
      np_sum = sum_list,
      nc_write = (\<lambda>d. d),
      nc_read = (\<lambda>f. Inr f)\<rparr>"

definition demo_world :: "int world" where
  "demo_world =
     \<lparr>files = [''/perm/X1/timeseries_foo_base_1990-1999.nc'' \<mapsto> 7,
                ''/perm/X1/timeseries_thetao_base_1990-1999.nc'' \<mapsto> 8,
                ''/perm/REF0/field_thetao_base_1980-1989.nc'' \<mapsto> 2],
      trace = []\<rparr>"

definition empty_world :: "int world" where
  "empty_world = \<lparr>files = Map.empty, trace = []\<rparr>"

definition cached_world :: "int world" where
  "cached_world =
     \<lparr>files = [''/perm/X1/timeseries_thetao_base_1990-1999.nc'' \<mapsto> 11],
      trace = [OpenDataset ''/perm/X1/timeseries_thetao_base_1990-1999.nc'',
               ReaderNemo ''X1'' 1990 1999,
               Averaging ''thetao'' ''timeseries'',
               Makedirs ''/perm/X1'',
               ToNetcdf ''/perm/X1/timeseries_thetao_base_1990-1999.nc'',
               OpenDataset ''/perm/X1/timeseries_thetao_base_1990-1999.nc'']\<rparr>"

definition demo_renv :: "(int, int list) renv" where
  "demo_renv =
     \<lparr>get_leg = (\<lambda>year. year - 1990 + 2),
      reader_rebuilt = (\<lambda>e sl el s. if el - sl < int (length s) then Inr (sum_list s)
                                      else Inl FileNotFoundError),
      rebuilder = (\<lambda>e leg s. (None, leg # s))\<rparr>"

definition demo_dirs :: dirs where
  "demo_dirs = \<lparr>perm = ''/perm/X1'', osprey = ''/osprey'', tmp = ''/tmp/X1''\<rparr>"

definition thetao_entry :: var_entry where
  "thetao_entry = \<lparr>dim = ''3D'', grid = GridTag ''T'', units = ''degC'',
     long_name = ''Temperature'', dependencies = None\<rparr>"

definition eof_world :: "int world" where
  "eof_world =
     \<lparr>files = [''/tmp/X1/004/thetao_pattern.nc'' \<mapsto> 10,
                ''/tmp/X1/004/thetao_series_00000.nc'' \<mapsto> 3,
                ''/tmp/X1/004/thetao_series_00001.nc'' \<mapsto> 4,
                ''/tmp/X1/004/thetao_series_00002.nc'' \<mapsto> 5,
                ''/tmp/X1/004/thetao.nc'' \<mapsto> 6,
                ''/tmp/X1/004/thetao_eof.nc'' \<mapsto> 1],
      trace = []\<rparr>"

definition demo_rollback_env :: "int rollback_env" where
  "demo_rollback_env =
     \<lparr>py_int = (\<lambda>s. if s = ''3'' then Inr 3 else if s = ''5'' then Inr 5
                     else if s = ''7'' then Inr 7 else Inl ValueError),
      add_years = (\<lambda>d n. Inr (d + n))\<rparr>"

definition demo_rollback_world :: "(int, unit) rollback_world" where
  "demo_rollback_world = \<lparr>legfile = Some \<lparr>num = 5, start = 1993, others = ()\<rparr>, dumps = 0\<rparr>"

definition union_dims :: "string list \<Rightarrow> string list \<Rightarrow> string list" where
  "union_dims a b = a @ filter (\<lambda>n. n \<notin> set a) b"

definition rename_in :: "(string \<times> string) list \<Rightarrow> string list \<Rightarrow> string list" where
  "rename_in m d = map (\<lambda>n. case map_of m n of None \<Rightarrow> n | Some n' \<Rightarrow> n') d"

definition xr_env :: "(string list, string list, real) env" where
  "xr_env =
     \<lparr>folders = (\<lambda>e. \<lparr>perm = ''/perm/'' @ e, osprey = ''/osprey'', tmp = ''/tmp/'' @ e\<rparr>),
      elements = (\<lambda>e. Inr []),
      reader_nemo = (\<lambda>e s y. Inr [''time'', ''z'', ''y'', ''x'']),
      cost = (\<lambda>x m t. Inr x),
      load_meanfield = (\<lambda>p. Inr None),
      spacemean = (\<lambda>d v n s. Inr [''time'']),
      timemean = (\<lambda>d v. Inr (filter (\<lambda>n. n \<noteq> ''time'') d)),
      get_decimal_year = (\<lambda>ts. Inr ts),
      get_forecast_year = (\<lambda>y l. Inr (y + l)),
      observables = (\<lambda>c. Inr nemo_list),
      time_values = (\<lambda>d. if ''time'' \<in> set d then Inr [[]] else Inl KeyError),
      np_array = (\<lambda>xs. [''time'']),
      getitem = (\<lambda>d k. Inr d),
      setitem = (\<lambda>d k v. Inr (union_dims d v)),
      weighted_mean = (\<lambda>d a. Inr [''z'']),
      xr_Dataset = (\<lambda>desc vars d v. Inr (concat (map snd vars))),
      xr_DataArray = (\<lambda>xs d. Inr [d]),
      rename_dims = (\<lambda>m d. Inr (rename_in m d)),
      rename = (\<lambda>m d. Inr (rename_in m d)),
      drop_vars = (\<lambda>ns d. Inr d),
      isel = (\<lambda>ix d. if set (map fst ix) \<subseteq> set d
                       then Inr (filter (\<lambda>n. n \<notin> set (map fst ix)) d) else Inl ValueError),
      polyfit = (\<lambda>d t deg skipna. if t \<in> set d
                       then Inr (''degree'' # filter (\<lambda>n. n \<noteq> t) d) else Inl ValueError),
      polyval = (\<lambda>x c. Inr (union_dims x (filter (\<lambda>n. n \<noteq> ''degree'') c))),
      unpack_pair = (\<lambda>c. Inr (c, c)),
      x_mul = (\<lambda>a b. Inr (union_dims a b)),
      x_mul_int = (\<lambda>a n. Inr a),
      x_add = (\<lambda>a b. Inr (union_dims a b)),
      transpose_dims = (\<lambda>ns d. if list_all (\<lambda>n. n \<in> set d) ns \<and> list_all (\<lambda>n. n \<in> set ns) d
                                 then Inr ns else Inl ValueError),
      DatetimeGregorian = (\<lambda>y mo d h mi s. Inr []),
      dims_of = (\<lambda>d. d),
      check_output = (\<lambda>c. Inl OSError),
      py_float = (\<lambda>s. Inl ValueError),
      float_literal = (\<lambda>s. 0),
      f_add = (\<lambda>a b. a + b),
      f_div = (\<lambda>a b. a / b),
      f_less = (\<lambda>a b. a < b),
      np_sum = sum_list,
      nc_write = (\<lambda>d. d),
      nc_read = (\<lambda>f. Inr f)\<rparr>"

definition xr_world :: "string list world" where
  "xr_world =
     \<lparr>files = [''/tmp/X1/004/thetao_pattern.nc'' \<mapsto> [''time_counter'', ''deptht'', ''y_grid_T'', ''x_grid_T''],
                ''/tmp/X1/004/thetao_series_00000.nc'' \<mapsto> [''time_counter'', ''zaxis_Reduced'', ''lat'', ''lon''],
                ''/tmp/X1/004/thetao_series_00001.nc'' \<mapsto> [''time_counter'', ''zaxis_Reduced'', ''lat'', ''lon''],
                ''/tmp/X1/004/thetao_eof.nc'' \<mapsto> [''stale'']],
      trace = []\<rparr>"

section \<open>Basic facts\<close>

lemma bind_err_simps [simp]:
  "bind_err (Inl e) k = Inl e" "bind_err (Inr x) k = k x"
  by (simp_all add: bind_err_def)

lemma files_log_event [simp]: "files (log_event ev w) = files w"
  by (simp add: log_event_def)

lemma trace_log_event [simp]: "trace (log_event ev w) = trace w @ [ev]"
  by (simp add: log_event_def)

lemma reader_averaged_eq:
  "reader_averaged E w expname sy ey varlabel diagname metrics =
     ((case files w (averaged_filename (folders E expname) diagname varlabel metrics sy ey) of
         None \<Rightarrow> Inl FileNotFoundError | Some f \<Rightarrow> nc_read E f),
      log_event (OpenDataset (averaged_filename (folders E expname) diagname varlabel metrics sy ey)) w)"
  by (simp add: reader_averaged_def Let_def split: option.splits)

lemma reader_averaged_hit:
  "files w (averaged_filename (folders E expname) diagname varlabel metrics sy ey) = Some f \<Longrightarrow>
   reader_averaged E w expname sy ey varlabel diagname metrics =
     (nc_read E f,
      log_event (OpenDataset (averaged_filename (folders E expname) diagname varlabel metrics sy ey)) w)"
  by (simp add: reader_averaged_eq)

lemma open_mfdataset_eq:
  "open_mfdataset E w filename ftype info =
     ((case files w filename of
         None \<Rightarrow> Inl OSError
       | Some f \<Rightarrow> bind_err (nc_read E f) (\<lambda>data. process_data E data ftype (dim info) (grid info))),
      log_event (OpenMfdataset filename) w)"
  by (simp add: open_mfdataset_def Let_def split: option.splits)

lemma demo_env_simps [simp]:
  "folders demo_env e = \<lparr>perm = ''/perm/'' @ e, osprey = ''/osprey'', tmp = ''/tmp/'' @ e\<rparr>"
  "elements demo_env e = Inr 0"
  "reader_nemo demo_env e s y = Inr 5"
  "cost demo_env x m t = Inr (x - m)"
  "load_meanfield demo_env p = Inr (Some (''REF0'', 1980, 1989))"
  "spacemean demo_env d v n sr = Inr (d + 1)"
  "timemean demo_env d v = Inr (d + 2)"
  "get_decimal_year demo_env ts = Inr ts"
  "get_forecast_year demo_env y l = Inr (y + l)"
  "observables demo_env component = Inr nemo_list"
  "time_values demo_env d = Inr [d]"
  "np_array demo_env = sum_list"
  "getitem demo_env d k = Inr d"
  "setitem demo_env d k x = Inr d"
  "weighted_mean demo_env d a = Inr d"
  "xr_Dataset demo_env desc vars d v = Inr (sum_list (map snd vars))"
  "xr_DataArray demo_env xs dn = Inr (sum_list xs)"
  "rename_dims demo_env rn d = Inr d"
  "rename demo_env rn d = Inr d"
  "drop_vars demo_env ns d = Inr d"
  "isel demo_env ix d = Inr (d + sum_list (map snd ix))"
  "polyfit demo_env d tn deg skipna = Inr (d + int deg)"
  "polyval demo_env x c = Inr (c + x)"
  "unpack_pair demo_env c = Inr (c, c)"
  "x_mul demo_env a b = Inr (a * b)"
  "x_mul_int demo_env a i = Inr (a * i)"
  "x_add demo_env a b = Inr (a + b)"
  "transpose_dims demo_env dl d = Inr d"
  "DatetimeGregorian demo_env y mo dd h mi sc = Inr y"
  "dims_of demo_env d = []"
  "check_output demo_env cmd = Inr demo_output"
  "py_float demo_env = demo_float"
  "float_literal demo_env ''0.9'' = 9 / 10"
  "f_add demo_env r1 r2 = r1 + r2"
  "f_div demo_env r1 r2 = r1 / r2"
  "f_less demo_env r1 r2 = (r1 < r2)"
  "np_sum demo_env = sum_list"
  "nc_write demo_env d = d"
  "nc_read demo_env f = Inr f"
  by (simp_all add: demo_env_def)

lemmas demo_simps = demo_world_def empty_world_def averaged_filename_def path_join_def
  py_str_int_def digits_nat.simps

lemma lookup_tos: "lookup_var ''tos'' = Inr (NDict \<lparr>dim = ''2D'', grid = GridTag ''T'', units = ''degC'',
    long_name = ''Sea-surface temperature'', dependencies = None\<rparr>)"
  by (simp add: lookup_var_def vardict_def nemo_list_def)

lemma lookup_thetao: "lookup_var ''thetao'' = Inr (NDict \<lparr>dim = ''3D'', grid = GridTag ''T'', units = ''degC'',
    long_name = ''Temperature'', dependencies = None\<rparr>)"
  by (simp add: lookup_var_def vardict_def nemo_list_def)

lemma lookup_foo: "lookup_var ''foo'' = Inl KeyError"
  by (simp add: lookup_var_def vardict_def nemo_list_def)

lemma split_simple [simp]: "split_varlabel ''tos'' = (''tos'', None)" "split_varlabel ''thetao'' = (''thetao'', None)"
  "split_varlabel ''foo'' = (''foo'', None)"
  by (simp_all add: split_varlabel_def)

lemma averaging_demo_timeseries:
  "averaging demo_env ''X1'' x ''thetao'' ''timeseries'' = Inr (x + (x + 1))"
  by (simp add: averaging_def lookup_thetao avg_timeseries_def avg_profile_def avg_hovmoller_def
      avg_map_def avg_field3_def avg_field2_def read_local_def decimal_time_def)

lemma thetao_entry_simps [simp]: "dim thetao_entry = ''3D''" "grid thetao_entry = GridTag ''T''"
  by (simp_all add: thetao_entry_def)

lemma demo_setup:
  "eof_setup demo_env ''thetao'' 4 2 8 =
     Inr \<lparr>setup_neofs = 2, setup_info = thetao_entry, setup_xf = 2000, setup_yf = 2000\<rparr>"
  by (simp add: eof_setup_def Let_def lookup_observable_def nemo_list_def forecast_xarray_def
        py_index_def thetao_entry_def)

lemma demo_process_data:
  "process_data demo_env d ''pattern'' ''3D'' (GridTag ''T'') = Inr d"
  "process_data demo_env d ''series'' ''3D'' (GridTag ''T'') = Inr d"
  by (simp_all add: process_data_def grid_mapping_def)

lemmas eof_file_simps = leg_file_def series_file_def path_join_def zfill_def py_str_int_def
  digits_nat.simps

lemma demo_leg_file [simp]:
  "leg_file \<lparr>perm = ''/perm/X1'', osprey = ''/osprey'', tmp = ''/tmp/X1''\<rparr> 4 (CHR ''t'' # name) = ''/tmp/X1/004/t'' @ name"
  by (simp add: eof_file_simps eval_nat_numeral)

lemma demo_series_file [simp]:
  "series_file \<lparr>perm = ''/perm/X1'', osprey = ''/osprey'', tmp = ''/tmp/X1''\<rparr> 4 ''thetao'' 0 = ''/tmp/X1/004/thetao_series_00000.nc''"
  "series_file \<lparr>perm = ''/perm/X1'', osprey = ''/osprey'', tmp = ''/tmp/X1''\<rparr> 4 ''thetao'' 1 = ''/tmp/X1/004/thetao_series_00001.nc''"
  "series_file \<lparr>perm = ''/perm/X1'', osprey = ''/osprey'', tmp = ''/tmp/X1''\<rparr> 4 ''thetao'' 2 = ''/tmp/X1/004/thetao_series_00002.nc''"
  by (simp_all add: eof_file_simps eval_nat_numeral)

lemma demo_lines:
  "splitlines demo_output =
     [ustr ''1 : 2 : Mean : 0.75'', ustr ''header without a value'', ustr ''1 : 2 : Mean : 0.2'',
      ustr ''1 : 2 : Mean : 0.05'']"
  by (simp add: splitlines_def demo_output_def is_linebreak_def ustr_def)

lemma demo_weights:
  "parse_weights demo_env (splitlines demo_output) = Inr [3 / 4, 1 / 5, 1 / 20]"
  by (simp add: demo_lines py_index_def strip_def is_space_def demo_float_def ustr_def)

lemma demo_cumulative:
  "cumulative_weights demo_env [3 / 4, 1 / 5, 1 / 20] = [3 / 4, 19 / 20, 1]"
  by (simp add: cumulative_weights_def)

lemma demo_feofs: "feofs_of demo_env [3 / 4, 1 / 5, 1 / 20] = 2"
  by (simp add: feofs_of_def searchsorted_def demo_cumulative threshold_percentage_def
        binsearch_left.simps)

lemma xr_env_simps [simp]:
  "folders xr_env e = \<lparr>perm = ''/perm/'' @ e, osprey = ''/osprey'', tmp = ''/tmp/'' @ e\<rparr>"
  "get_decimal_year xr_env ts = Inr ts"
  "get_forecast_year xr_env y l = Inr (y + l)"
  "observables xr_env component = Inr nemo_list"
  "time_values xr_env d = (if ''time'' \<in> set d then Inr [[]] else Inl KeyError)"
  "np_array xr_env xs = [''time'']"
  "getitem xr_env d k = Inr d"
  "setitem xr_env d k x = Inr (union_dims d x)"
  "xr_DataArray xr_env xs dn = Inr [dn]"
  "rename_dims xr_env rn d = Inr (rename_in rn d)"
  "rename xr_env rn d = Inr (rename_in rn d)"
  "drop_vars xr_env ns d = Inr d"
  "isel xr_env ix d = (if set (map fst ix) \<subseteq> set d
                       then Inr (filter (\<lambda>n. n \<notin> set (map fst ix)) d) else Inl ValueError)"
  "polyfit xr_env d tn deg skipna = (if tn \<in> set d
                       then Inr (''degree'' # filter (\<lambda>n. n \<noteq> tn) d) else Inl ValueError)"
  "polyval xr_env x c = Inr (union_dims x (filter (\<lambda>n. n \<noteq> ''degree'') c))"
  "unpack_pair xr_env c = Inr (c, c)"
  "x_mul xr_env a b = Inr (union_dims a b)"
  "x_mul_int xr_env a i = Inr a"
  "x_add xr_env a b = Inr (union_dims a b)"
  "transpose_dims xr_env dl d =
     (if list_all (\<lambda>n. n \<in> set d) dl \<and> list_all (\<lambda>n. n \<in> set dl) d
      then Inr dl else Inl ValueError)"
  "DatetimeGregorian xr_env yr mo dd h mi sc = Inr []"
  "dims_of xr_env d = d"
  "nc_write xr_env d = d"
  "nc_read xr_env f = Inr f"
  by (simp_all add: xr_env_def)

lemma xr_setup:
  "eof_setup xr_env ''thetao'' 4 2 8 =
     Inr \<lparr>setup_neofs = 2, setup_info = thetao_entry, setup_xf = [''time''], setup_yf = [''time'']\<rparr>"
  by (simp add: eof_setup_def Let_def lookup_observable_def nemo_list_def forecast_xarray_def
        py_index_def thetao_entry_def)

lemma lower_T: "lower ''T'' = ''t''"
  by code_simp

lemma xr_process_data:
  "process_data xr_env [''time_counter'', ''deptht'', ''y_grid_T'', ''x_grid_T''] ''pattern'' ''3D''
     (GridTag ''T'') = Inr [''time'', ''z'', ''y'', ''x'']"
  "process_data xr_env [''time_counter'', ''zaxis_Reduced'', ''lat'', ''lon''] ''series'' ''3D''
     (GridTag ''T'') = Inr [''time'']"
  by (simp_all add: process_data_def grid_mapping_def rename_in_def lower_T)

lemmas xr_eval = project_eofs_def xr_setup Let_def open_mfdataset_eq xr_process_data
  xr_world_def eof_mode_def py_range_def upto_rec1 full_body_def reco_body_def
  fit_decimal_def accumulate_def write_eof_def fit_dimensions_def remove_existing_filelist_def
  to_netcdf_def log_event_def union_dims_def

section \<open>The cached post-reader\<close>

subsection \<open>Cache hit\<close>

text \<open>
  Claim C1, as the specification states it: for every call of \<open>postreader_averaged\<close> with
  \<open>replace=False\<close> for which the cache file exists, the function returns the dataset
  loaded from that file. The code looks the variable up in the catalogue, and asks for the
  grid elements of the experiment, before it tries the cache: for a variable label whose
  name is not in the catalogue the call raises \<open>KeyError\<close> although the file is there.
\<close>

theorem postreader_cache_hit_counterexample:
  "files demo_world (averaged_filename (folders demo_env ''X1'') ''timeseries'' ''foo'' ''base'' 1990 1999) = Some 7
   \<and> postreader_averaged demo_env demo_world ''X1'' 1990 1999 ''foo'' ''timeseries'' False ''base''
       = (Inl KeyError, demo_world)"
  by (simp add: demo_simps postreader_averaged_def lookup_foo)

text \<open>
  Claim C1, amended: when the grid elements of the experiment load, the variable name
  (the label up to its first dash) is in the catalogue, the cache file exists and
  \<open>xr.open_dataset\<close> reads a dataset from it, the call with \<open>replace=False\<close> returns that
  dataset; the files are unchanged and the only call recorded is the opening of the cache
  file, so there is no raw read, no metric combination, no averaging and no write.
\<close>

theorem postreader_cache_hit:
  assumes "elements E expname = Inr df"
      and "lookup_var (fst (split_varlabel varlabel)) = Inr ndim"
      and "files w (averaged_filename (folders E expname) diagname varlabel metrics sy ey) = Some f"
      and "nc_read E f = Inr d"
  shows "postreader_averaged E w expname sy ey varlabel diagname False metrics =
           (Inr d,
            w\<lparr>trace := trace w @ [OpenDataset (averaged_filename (folders E expname) diagname varlabel metrics sy ey)]\<rparr>)"
  using assms
  by (simp add: postreader_averaged_def reader_averaged_hit log_event_def case_prod_unfold)

theorem postreader_cache_hit_witness:
  "postreader_averaged demo_env demo_world ''X1'' 1990 1999 ''thetao'' ''timeseries'' False ''base''
     = (Inr 8, demo_world\<lparr>trace := [OpenDataset ''/perm/X1/timeseries_thetao_base_1990-1999.nc'']\<rparr>)"
  using postreader_cache_hit [of demo_env "''X1''" 0 "''thetao''" _ demo_world "''timeseries''" "''base''" 1990 1999 8 8]
  by (simp add: demo_simps lookup_thetao)

subsection \<open>Idempotence\<close>

lemma postreader_Inr_file:
  assumes "postreader_averaged E w expname sy ey varlabel diagname replace metrics = (Inr d, w1)"
  shows "\<exists>f df ndim. files w1 (averaged_filename (folders E expname) diagname varlabel metrics sy ey) = Some f
           \<and> nc_read E f = Inr d \<and> elements E expname = Inr df
           \<and> lookup_var (fst (split_varlabel varlabel)) = Inr ndim"
  using assms
  by (auto simp add: postreader_averaged_def recompute_def Let_def case_prod_unfold
        reader_averaged_eq to_netcdf_def
        split: sum.splits if_splits py_error.splits option.splits)

text \<open>
  Claim C2: when a call of \<open>postreader_averaged\<close> with \<open>replace=False\<close> returns a
  product, the cache file exists afterwards and holds that product, and a second call with
  the same arguments returns the same product, read from the file and nothing else.
\<close>

theorem postreader_idempotent:
  assumes "postreader_averaged E w expname sy ey varlabel diagname False metrics = (Inr d, w1)"
  shows "\<exists>f. files w1 (averaged_filename (folders E expname) diagname varlabel metrics sy ey) = Some f
           \<and> nc_read E f = Inr d
           \<and> postreader_averaged E w1 expname sy ey varlabel diagname False metrics =
               (Inr d, w1\<lparr>trace := trace w1 @ [OpenDataset (averaged_filename (folders E expname) diagname varlabel metrics sy ey)]\<rparr>)"
proof -
  from postreader_Inr_file [OF assms] obtain f df ndim where
    f: "files w1 (averaged_filename (folders E expname) diagname varlabel metrics sy ey) = Some f"
    and d: "nc_read E f = Inr d" and el: "elements E expname = Inr df"
    and lk: "lookup_var (fst (split_varlabel varlabel)) = Inr ndim"
    by blast
  have "postreader_averaged E w1 expname sy ey varlabel diagname False metrics =
           (Inr d,
            w1\<lparr>trace := trace w1 @ [OpenDataset (averaged_filename (folders E expname) diagname varlabel metrics sy ey)]\<rparr>)"
    using el lk f d
    by (simp add: postreader_averaged_def reader_averaged_hit log_event_def case_prod_unfold)
  with f d show ?thesis by simp
qed

lemma first_call:
  "postreader_averaged demo_env empty_world ''X1'' 1990 1999 ''thetao'' ''timeseries'' False ''base''
     = (Inr 11, cached_world)"
  by (simp add: postreader_averaged_def lookup_thetao reader_averaged_eq recompute_def Let_def
        averaging_demo_timeseries to_netcdf_def log_event_def cached_world_def demo_simps)

theorem postreader_idempotent_witness:
  "postreader_averaged demo_env empty_world ''X1'' 1990 1999 ''thetao'' ''timeseries'' False ''base''
     = (Inr 11, cached_world)
   \<and> postreader_averaged demo_env cached_world ''X1'' 1990 1999 ''thetao'' ''timeseries'' False ''base''
     = (Inr 11, cached_world\<lparr>trace := trace cached_world
          @ [OpenDataset ''/perm/X1/timeseries_thetao_base_1990-1999.nc'']\<rparr>)"
  using postreader_idempotent [OF first_call] first_call
  by (simp add: demo_simps)

subsection \<open>Rejection of profiles and Hovmoller diagrams of 2D variables\<close>

text \<open>
  For the diagnostics \<open>profile\<close> and \<open>hovmoller\<close> no statement of \<open>averaging\<close> binds
  \<open>ds\<close>, so \<open>return ds\<close> raises \<open>UnboundLocalError\<close>.
\<close>

lemma averaging_unbound:
  assumes "diagname = ''profile'' \<or> diagname = ''hovmoller''"
      and "lookup_var (fst (split_varlabel varlabel)) = Inr (NDict e)"
  shows "averaging E expname data varlabel diagname =
           bind_err (elements E expname) (\<lambda>df. Inl UnboundLocalError)"
  using assms
  by (auto simp add: averaging_def avg_timeseries_def avg_profile_def avg_hovmoller_def
        avg_map_def avg_field3_def avg_field2_def read_local_def
        split: prod.splits sum.splits)

lemma averaging_demo_profile:
  "averaging demo_env ''X1'' x ''thetao'' ''profile'' = Inl UnboundLocalError"
  using averaging_unbound [of "''profile''" "''thetao''" _ demo_env "''X1''" x]
  by (simp add: lookup_thetao)

text \<open>
  Claim C3: for every variable whose catalogue dimensionality is \<open>2D\<close>, \<open>averaging\<close>
  with the diagnostic \<open>profile\<close> or \<open>hovmoller\<close> ends in an error, never in a product:
  the error of \<open>elements\<close> if that call fails, and \<open>UnboundLocalError\<close> otherwise.
\<close>

theorem averaging_rejects_profile_hovmoller_2D:
  assumes "lookup_var (fst (split_varlabel varlabel)) = Inr (NDict e)"
      and "dim e = ''2D''"
      and "diagname = ''profile'' \<or> diagname = ''hovmoller''"
  shows "averaging E expname data varlabel diagname =
           (case elements E expname of Inl err \<Rightarrow> Inl err | Inr df \<Rightarrow> Inl UnboundLocalError)"
  using averaging_unbound [OF assms(3) assms(1)] by (simp add: bind_err_def)

theorem averaging_rejects_profile_hovmoller_2D_witness:
  "averaging demo_env ''X1'' 5 ''tos'' ''profile'' = Inl UnboundLocalError
   \<and> averaging demo_env ''X1'' 5 ''tos'' ''hovmoller'' = Inl UnboundLocalError"
  using averaging_rejects_profile_hovmoller_2D [of "''tos''" _ "''profile''" demo_env "''X1''" 5]
        averaging_rejects_profile_hovmoller_2D [of "''tos''" _ "''hovmoller''" demo_env "''X1''" 5]
  by (simp add: lookup_tos)

subsection \<open>The reference product\<close>

text \<open>
  The path that computes the product, for a metric other than \<open>base\<close>, when the raw read
  succeeds and \<open>meanfield.yaml\<close> names a reference.
\<close>

lemma recompute_reference:
  assumes "metrics \<noteq> ''base''"
      and "reader_nemo E expname sy ey = Inr xdata"
      and "load_meanfield E (path_join (osprey (folders E expname)) ''meanfield.yaml'') = Inr (Some (exp0, y0, y1))"
  shows "recompute E w expname sy ey varlabel diagname replace metrics =
    (let ref = averaged_filename (folders E exp0) ''field'' varlabel ''base'' y0 y1;
         cache = averaged_filename (folders E expname) diagname varlabel metrics sy ey;
         w3 = w\<lparr>trace := trace w @ [ReaderNemo expname sy ey,
                 LoadYaml (path_join (osprey (folders E expname)) ''meanfield.yaml''),
                 OpenDataset ref]\<rparr>
     in case files w ref of
          None \<Rightarrow> (Inl FileNotFoundError, w3)
        | Some f \<Rightarrow>
           (case nc_read E f of
              Inl e \<Rightarrow> (Inl e, w3)
            | Inr mdata \<Rightarrow>
               (case cost E xdata mdata metrics of
                  Inl e \<Rightarrow> (Inl e, w3\<lparr>trace := trace w3 @ [Cost metrics]\<rparr>)
                | Inr x \<Rightarrow>
                   (case averaging E expname x varlabel diagname of
                      Inl e \<Rightarrow>
                        (Inl e, w3\<lparr>trace := trace w3 @ [Cost metrics, Averaging varlabel diagname]\<rparr>)
                    | Inr product \<Rightarrow>
                        (nc_read E (nc_write E product),
                         w3\<lparr>files := (files w)(cache \<mapsto> nc_write E product),
                            trace := trace w3
                              @ [Cost metrics, Averaging varlabel diagname,
                                 Makedirs (perm (folders E expname))]
                              @ (if replace then [RemoveFile cache] else [])
                              @ [ToNetcdf cache, OpenDataset cache]\<rparr>)))))"
  using assms
  by (auto simp add: recompute_def combine_reference_def Let_def read_local_def reader_averaged_eq
        log_event_def to_netcdf_def remove_existing_file_def
        split: option.splits sum.splits)

lemma postreader_recompute:
  assumes "elements E expname = Inr df"
      and "lookup_var (fst (split_varlabel varlabel)) = Inr ndim"
      and "replace \<or> files w (averaged_filename (folders E expname) diagname varlabel metrics sy ey) = None"
  shows "postreader_averaged E w expname sy ey varlabel diagname replace metrics =
           recompute E
             (if replace then w
              else w\<lparr>trace := trace w @ [OpenDataset (averaged_filename (folders E expname) diagname varlabel metrics sy ey)]\<rparr>)
             expname sy ey varlabel diagname replace metrics"
  using assms
  by (auto simp add: postreader_averaged_def case_prod_unfold reader_averaged_eq log_event_def)

text \<open>
  Claim C4: a call with a metric other than \<open>base\<close> that reaches the computation (the
  cache is bypassed or missed, the raw read succeeds, the configuration names a reference)
  opens the reference product before the metric combination; when the reference file does
  not exist the call fails with \<open>FileNotFoundError\<close>, having made one raw read, for the
  experiment of the call, and written nothing: the reference is not computed. A reference
  file that exists but cannot be read ends the call with the error of the reading, at the
  same point.
\<close>

theorem postreader_reference_missing_is_fatal:
  assumes "metrics \<noteq> ''base''"
      and "elements E expname = Inr df"
      and "lookup_var (fst (split_varlabel varlabel)) = Inr ndim"
      and "replace \<or> files w (averaged_filename (folders E expname) diagname varlabel metrics sy ey) = None"
      and "reader_nemo E expname sy ey = Inr xdata"
      and "load_meanfield E (path_join (osprey (folders E expname)) ''meanfield.yaml'') = Inr (Some (exp0, y0, y1))"
  shows "(files w (averaged_filename (folders E exp0) ''field'' varlabel ''base'' y0 y1) = None \<longrightarrow>
            postreader_averaged E w expname sy ey varlabel diagname replace metrics =
              (Inl FileNotFoundError,
               w\<lparr>trace := trace w
                   @ (if replace then [] else [OpenDataset (averaged_filename (folders E expname) diagname varlabel metrics sy ey)])
                   @ [ReaderNemo expname sy ey,
                      LoadYaml (path_join (osprey (folders E expname)) ''meanfield.yaml''),
                      OpenDataset (averaged_filename (folders E exp0) ''field'' varlabel ''base'' y0 y1)]\<rparr>))
       \<and> (\<forall>f mdata. files w (averaged_filename (folders E exp0) ''field'' varlabel ''base'' y0 y1) = Some f
              \<and> nc_read E f = Inr mdata \<longrightarrow>
            (\<exists>rest. trace (snd (postreader_averaged E w expname sy ey varlabel diagname replace metrics)) =
               trace w
                 @ (if replace then [] else [OpenDataset (averaged_filename (folders E expname) diagname varlabel metrics sy ey)])
                 @ [ReaderNemo expname sy ey,
                    LoadYaml (path_join (osprey (folders E expname)) ''meanfield.yaml''),
                    OpenDataset (averaged_filename (folders E exp0) ''field'' varlabel ''base'' y0 y1),
                    Cost metrics] @ rest
               \<and> (\<forall>e s y. ReaderNemo e s y \<notin> set rest)))
       \<and> (\<forall>f err. files w (averaged_filename (folders E exp0) ''field'' varlabel ''base'' y0 y1) = Some f
              \<and> nc_read E f = Inl err \<longrightarrow>
            postreader_averaged E w expname sy ey varlabel diagname replace metrics =
              (Inl err,
               w\<lparr>trace := trace w
                   @ (if replace then [] else [OpenDataset (averaged_filename (folders E expname) diagname varlabel metrics sy ey)])
                   @ [ReaderNemo expname sy ey,
                      LoadYaml (path_join (osprey (folders E expname)) ''meanfield.yaml''),
                      OpenDataset (averaged_filename (folders E exp0) ''field'' varlabel ''base'' y0 y1)]\<rparr>))"
  unfolding postreader_recompute [OF assms(2,3,4)] recompute_reference [OF assms(1,5,6)]
  by (auto simp add: Let_def split: option.splits sum.splits)

theorem postreader_reference_missing_is_fatal_witness:
  "postreader_averaged demo_env empty_world ''X1'' 1990 1999 ''thetao'' ''timeseries'' False ''diff''
     = (Inl FileNotFoundError,
        empty_world\<lparr>trace := [OpenDataset ''/perm/X1/timeseries_thetao_diff_1990-1999.nc'',
           ReaderNemo ''X1'' 1990 1999, LoadYaml ''/osprey/meanfield.yaml'',
           OpenDataset ''/perm/REF0/field_thetao_base_1980-1989.nc'']\<rparr>)
   \<and> (\<exists>rest. trace (snd (postreader_averaged demo_env demo_world ''X1'' 1990 1999 ''thetao''
                            ''timeseries'' True ''diff'')) =
          [ReaderNemo ''X1'' 1990 1999, LoadYaml ''/osprey/meanfield.yaml'',
           OpenDataset ''/perm/REF0/field_thetao_base_1980-1989.nc'', Cost ''diff''] @ rest
          \<and> (\<forall>e s y. ReaderNemo e s y \<notin> set rest))"
  using postreader_reference_missing_is_fatal [of "''diff''" demo_env "''X1''" 0 "''thetao''" _ False
          empty_world "''timeseries''" 1990 1999 5 "''REF0''" 1980 1989]
        postreader_reference_missing_is_fatal [of "''diff''" demo_env "''X1''" 0 "''thetao''" _ True
          demo_world "''timeseries''" 1990 1999 5 "''REF0''" 1980 1989]
  by (simp add: demo_simps lookup_thetao)

text \<open>
  Claim C8: whatever diagnostic and metric (other than \<open>base\<close>) the caller asks for, the
  reference is the file of the diagnostic \<open>field\<close> and the metric \<open>base\<close>, for the
  caller's variable label, of the experiment and years of \<open>meanfield.yaml\<close>. The whole
  outcome of the call is a function of that file: it is the file opened after the raw
  read, its absence or unreadability ends the call, its contents are the second argument
  of \<open>cost\<close>, and what is averaged, written and returned is the result of \<open>cost\<close>. The
  statement holds for every diagnostic, also for those whose averaging raises.
\<close>

theorem postreader_reference_is_field_base:
  assumes "metrics \<noteq> ''base''"
      and "elements E expname = Inr df"
      and "lookup_var (fst (split_varlabel varlabel)) = Inr ndim"
      and "replace \<or> files w (averaged_filename (folders E expname) diagname varlabel metrics sy ey) = None"
      and "reader_nemo E expname sy ey = Inr xdata"
      and "load_meanfield E (path_join (osprey (folders E expname)) ''meanfield.yaml'') = Inr (Some (exp0, y0, y1))"
  shows "postreader_averaged E w expname sy ey varlabel diagname replace metrics =
    (let ref = averaged_filename (folders E exp0) ''field'' varlabel ''base'' y0 y1;
         cache = averaged_filename (folders E expname) diagname varlabel metrics sy ey;
         w3 = w\<lparr>trace := trace w
                 @ (if replace then [] else [OpenDataset cache])
                 @ [ReaderNemo expname sy ey,
                    LoadYaml (path_join (osprey (folders E expname)) ''meanfield.yaml''),
                    OpenDataset ref]\<rparr>
     in case files w ref of
          None \<Rightarrow> (Inl FileNotFoundError, w3)
        | Some f \<Rightarrow>
           (case nc_read E f of
              Inl e \<Rightarrow> (Inl e, w3)
            | Inr mdata \<Rightarrow>
               (case cost E xdata mdata metrics of
                  Inl e \<Rightarrow> (Inl e, w3\<lparr>trace := trace w3 @ [Cost metrics]\<rparr>)
                | Inr x \<Rightarrow>
                   (case averaging E expname x varlabel diagname of
                      Inl e \<Rightarrow>
                        (Inl e, w3\<lparr>trace := trace w3 @ [Cost metrics, Averaging varlabel diagname]\<rparr>)
                    | Inr product \<Rightarrow>
                        (nc_read E (nc_write E product),
                         w3\<lparr>files := (files w)(cache \<mapsto> nc_write E product),
                            trace := trace w3
                              @ [Cost metrics, Averaging varlabel diagname,
                                 Makedirs (perm (folders E expname))]
                              @ (if replace then [RemoveFile cache] else [])
                              @ [ToNetcdf cache, OpenDataset cache]\<rparr>)))))"
  unfolding postreader_recompute [OF assms(2,3,4)] recompute_reference [OF assms(1,5,6)]
  by (auto simp add: Let_def split: option.splits sum.splits)

theorem postreader_reference_is_field_base_witness:
  "postreader_averaged demo_env demo_world ''X1'' 1990 1999 ''thetao'' ''timeseries'' True ''diff'' =
     (Inr 7,
      \<lparr>files = (files demo_world)(''/perm/X1/timeseries_thetao_diff_1990-1999.nc'' \<mapsto> 7),
         trace = [ReaderNemo ''X1'' 1990 1999, LoadYaml ''/osprey/meanfield.yaml'',
           OpenDataset ''/perm/REF0/field_thetao_base_1980-1989.nc'', Cost ''diff'',
           Averaging ''thetao'' ''timeseries'', Makedirs ''/perm/X1'',
           RemoveFile ''/perm/X1/timeseries_thetao_diff_1990-1999.nc'',
           ToNetcdf ''/perm/X1/timeseries_thetao_diff_1990-1999.nc'',
           OpenDataset ''/perm/X1/timeseries_thetao_diff_1990-1999.nc'']\<rparr>)
   \<and> postreader_averaged demo_env demo_world ''X1'' 1990 1999 ''thetao'' ''profile'' False ''rel'' =
     (Inl UnboundLocalError,
      demo_world\<lparr>trace := [OpenDataset ''/perm/X1/profile_thetao_rel_1990-1999.nc'',
           ReaderNemo ''X1'' 1990 1999, LoadYaml ''/osprey/meanfield.yaml'',
           OpenDataset ''/perm/REF0/field_thetao_base_1980-1989.nc'', Cost ''rel'',
           Averaging ''thetao'' ''profile'']\<rparr>)
   \<and> postreader_averaged demo_env empty_world ''X1'' 1990 1999 ''thetao'' ''map'' True ''var'' =
     (Inl FileNotFoundError,
      empty_world\<lparr>trace := [ReaderNemo ''X1'' 1990 1999, LoadYaml ''/osprey/meanfield.yaml'',
           OpenDataset ''/perm/REF0/field_thetao_base_1980-1989.nc'']\<rparr>)"
  using postreader_reference_is_field_base [of "''diff''" demo_env "''X1''" 0 "''thetao''" _ True
          demo_world "''timeseries''" 1990 1999 5 "''REF0''" 1980 1989]
        postreader_reference_is_field_base [of "''rel''" demo_env "''X1''" 0 "''thetao''" _ False
          demo_world "''profile''" 1990 1999 5 "''REF0''" 1980 1989]
        postreader_reference_is_field_base [of "''var''" demo_env "''X1''" 0 "''thetao''" _ True
          empty_world "''map''" 1990 1999 5 "''REF0''" 1980 1989]
  by (simp add: demo_simps lookup_thetao averaging_demo_timeseries averaging_demo_profile Let_def)

section \<open>Reading restarts\<close>

lemma rebuild_legs_calls:
  "fst (rebuild_legs R expname legs w) = None \<Longrightarrow>
   calls (snd (rebuild_legs R expname legs w)) = calls w @ map (Rebuilder expname) legs"
proof (induction legs arbitrary: w)
  case Nil
  then show ?case by simp
next
  case (Cons leg legs)
  then show ?case
    by (cases "rebuilder R expname leg (store w)") (auto split: option.splits)
qed

text \<open>
  Claim C9: \<open>reader_restart\<close> returns the result of \<open>reader_rebuilt\<close> when it succeeds,
  with that one call; on \<open>FileNotFoundError\<close>, when no \<open>rebuilder\<close> call raises, it calls
  \<open>rebuilder\<close> once for every leg from \<open>get_leg(startyear)\<close> to \<open>get_leg(endyear)\<close> in
  order, then calls \<open>reader_rebuilt\<close> once more and returns whatever that call gives.
\<close>

theorem reader_restart_rebuilds_once:
  "(reader_rebuilt R expname (get_leg R sy) (get_leg R ey) (store w) = Inr data \<longrightarrow>
      reader_restart R expname sy ey w =
        (Inr data, w\<lparr>calls := calls w @ [ReaderRebuilt expname (get_leg R sy) (get_leg R ey)]\<rparr>))
   \<and> (reader_rebuilt R expname (get_leg R sy) (get_leg R ey) (store w) = Inl FileNotFoundError
        \<and> fst (rebuild_legs R expname [get_leg R sy..get_leg R ey]
                 (w\<lparr>calls := calls w @ [ReaderRebuilt expname (get_leg R sy) (get_leg R ey)]\<rparr>)) = None \<longrightarrow>
      fst (reader_restart R expname sy ey w) =
        reader_rebuilt R expname (get_leg R sy) (get_leg R ey)
          (store (snd (rebuild_legs R expname [get_leg R sy..get_leg R ey]
                   (w\<lparr>calls := calls w @ [ReaderRebuilt expname (get_leg R sy) (get_leg R ey)]\<rparr>))))
      \<and> calls (snd (reader_restart R expname sy ey w)) =
          calls w @ [ReaderRebuilt expname (get_leg R sy) (get_leg R ey)]
            @ map (Rebuilder expname) [get_leg R sy..get_leg R ey]
            @ [ReaderRebuilt expname (get_leg R sy) (get_leg R ey)])"
proof (intro conjI impI)
  assume "reader_rebuilt R expname (get_leg R sy) (get_leg R ey) (store w) = Inr data"
  then show "reader_restart R expname sy ey w =
        (Inr data, w\<lparr>calls := calls w @ [ReaderRebuilt expname (get_leg R sy) (get_leg R ey)]\<rparr>)"
    by (simp add: reader_restart_def call_reader_rebuilt_def Let_def)
next
  let ?w1 = "w\<lparr>calls := calls w @ [ReaderRebuilt expname (get_leg R sy) (get_leg R ey)]\<rparr>"
  let ?r = "rebuild_legs R expname [get_leg R sy..get_leg R ey] ?w1"
  assume a: "reader_rebuilt R expname (get_leg R sy) (get_leg R ey) (store w) = Inl FileNotFoundError
        \<and> fst ?r = None"
  then have eq: "reader_restart R expname sy ey w =
      call_reader_rebuilt R expname (get_leg R sy) (get_leg R ey) (snd ?r)"
    by (cases ?r) (simp add: reader_restart_def call_reader_rebuilt_def Let_def)
  show "fst (reader_restart R expname sy ey w) =
        reader_rebuilt R expname (get_leg R sy) (get_leg R ey) (store (snd ?r))"
    by (simp add: eq call_reader_rebuilt_def)
  show "calls (snd (reader_restart R expname sy ey w)) =
          calls w @ [ReaderRebuilt expname (get_leg R sy) (get_leg R ey)]
            @ map (Rebuilder expname) [get_leg R sy..get_leg R ey]
            @ [ReaderRebuilt expname (get_leg R sy) (get_leg R ey)]"
    using a rebuild_legs_calls [of R expname "[get_leg R sy..get_leg R ey]" ?w1]
    by (simp add: eq call_reader_rebuilt_def)
qed

theorem reader_restart_rebuilds_once_witness:
  "reader_restart demo_renv ''X1'' 1990 1992 \<lparr>store = [4, 3, 2], calls = []\<rparr> =
     (Inr 9, \<lparr>store = [4, 3, 2], calls = [ReaderRebuilt ''X1'' 2 4]\<rparr>)
   \<and> fst (reader_restart demo_renv ''X1'' 1990 1992 \<lparr>store = [2], calls = []\<rparr>) = Inr 11
   \<and> calls (snd (reader_restart demo_renv ''X1'' 1990 1992 \<lparr>store = [2], calls = []\<rparr>)) =
       [ReaderRebuilt ''X1'' 2 4, Rebuilder ''X1'' 2, Rebuilder ''X1'' 3, Rebuilder ''X1'' 4,
        ReaderRebuilt ''X1'' 2 4]"
  using reader_restart_rebuilds_once [of demo_renv "''X1''" 1990 1992 "\<lparr>store = [4, 3, 2], calls = []\<rparr>" 9]
        reader_restart_rebuilds_once [of demo_renv "''X1''" 1990 1992 "\<lparr>store = [2], calls = []\<rparr>" 0]
  by (simp add: demo_renv_def upto_rec1)

section \<open>The EOF projector\<close>

subsection \<open>Loops over a range\<close>

text \<open>
  A loop over \<open>k, ..., m\<close> whose body, at index \<open>i\<close>, takes the field \<open>fl i\<close> to
  \<open>fl (i + 1)\<close> and records one call, in any world with the files \<open>F\<close>; the files and
  any property of the field that the body keeps are kept by the loop.
\<close>

lemma for_range_upto:
  assumes "\<forall>i. k \<le> i \<and> i \<le> m \<longrightarrow>
             (\<forall>w'. files w' = F \<longrightarrow> body i (fl i, w') = (Inr (fl (i + 1)), log_event (ev i) w'))"
      and "files w = F"
  shows "for_range body [k..m] (fl k, w) =
           (Inr (fl (max k (m + 1))), w\<lparr>trace := trace w @ map ev [k..m]\<rparr>)"
  using assms
proof (induction "nat (m + 1 - k)" arbitrary: k w)
  case 0
  then have "[k..m] = []" by simp
  moreover from 0 have "max k (m + 1) = k" by simp
  ultimately show ?case by simp
next
  case (Suc j)
  then have km: "k \<le> m" by simp
  then have up: "[k..m] = k # [k + 1..m]" by (simp add: upto_rec1)
  from Suc.prems km have step: "body k (fl k, w) = (Inr (fl (k + 1)), log_event (ev k) w)"
    by simp
  have j: "j = nat (m + 1 - (k + 1))" using Suc.hyps(2) by simp
  have rest: "for_range body [k + 1..m] (fl (k + 1), log_event (ev k) w) =
      (Inr (fl (max (k + 1) (m + 1))),
       (log_event (ev k) w)\<lparr>trace := trace (log_event (ev k) w) @ map ev [k + 1..m]\<rparr>)"
    using Suc.hyps(1) [OF j, of "log_event (ev k) w"] Suc.prems by simp
  from km have mx: "max (k + 1) (m + 1) = max k (m + 1)" by simp
  show ?case
    using rest by (simp add: up step mx log_event_def)
qed

lemma for_range_files:
  assumes "\<And>i fw. files (snd (body i fw)) = files (snd fw)"
  shows "files (snd (for_range body is fw)) = files (snd fw)"
proof (induction "is" arbitrary: fw)
  case Nil
  then show ?case by simp
next
  case (Cons i "is")
  show ?case
  proof (cases "body i fw")
    case (Pair r w1)
    with assms [of i fw] have f: "files w1 = files (snd fw)" by simp
    show ?thesis
    proof (cases r)
      case (Inl e)
      with Pair f show ?thesis by simp
    next
      case (Inr field)
      with Pair f Cons.IH [of "(field, w1)"] show ?thesis by simp
    qed
  qed
qed

lemma for_range_invariant:
  assumes "\<And>i fw r w1. P (fst fw) \<Longrightarrow> body i fw = (Inr r, w1) \<Longrightarrow> P r"
  shows "P (fst fw) \<Longrightarrow> for_range body is fw = (Inr r, w') \<Longrightarrow> P r"
proof (induction "is" arbitrary: fw)
  case Nil
  then show ?case by simp
next
  case (Cons i "is")
  show ?case
  proof (cases "body i fw")
    case (Pair res w1)
    show ?thesis
    proof (cases res)
      case (Inl e)
      with Pair Cons.prems(2) show ?thesis by simp
    next
      case (Inr field)
      with Pair assms [of fw i field w1] Cons.prems(1) have "P field" by simp
      moreover from Pair Inr Cons.prems(2) have "for_range body is (field, w1) = (Inr r, w')"
        by simp
      ultimately show ?thesis using Cons.IH [of "(field, w1)"] by simp
    qed
  qed
qed

lemma full_body_step:
  assumes "files w' (series_file ds endleg varname i) = Some f"
      and "nc_read E f = Inr raw"
      and "process_data E raw ''series'' (dim info) (grid info) = Inr ts"
      and "time_values E ts = Inr tv" and "get_decimal_year E tv = Inr nt"
      and "setitem E ts ''time'' (np_array E nt) = Inr ts'"
      and "polyfit E ts' ''time'' 1 True = Inr p"
      and "getitem E p (varname @ ''_polyfit_coefficients'') = Inr c"
      and "unpack_pair E c = Inr mq"
      and "polyval E xf c = Inr theta"
      and "isel E [(''time'', i)] pattern = Inr basis"
      and "x_mul E theta basis = Inr tm"
      and "x_add E field tm = Inr g"
      and "setitem E g ''time'' yf = Inr field'"
  shows "full_body E info varname pattern xf yf (series_file ds endleg varname i) i (field, w') =
           (Inr field', log_event (OpenMfdataset (series_file ds endleg varname i)) w')"
  using assms
  by (simp add: full_body_def open_mfdataset_eq fit_decimal_def accumulate_def)

lemma frac_body_step:
  assumes "files w' (series_file ds endleg varname i) = Some f"
      and "nc_read E f = Inr raw"
      and "process_data E raw ''series'' (dim info) (grid info) = Inr ts"
      and "polyfit E ts ''time'' 1 True = Inr p"
      and "getitem E p (varname @ ''_polyfit_coefficients'') = Inr c"
      and "polyval E xf c = Inr theta"
      and "isel E [(''time'', i)] pattern = Inr basis"
      and "x_mul E theta basis = Inr tm"
      and "x_add E field tm = Inr field'"
  shows "frac_body E ds info varname endleg pattern xf i (field, w') =
           (Inr field', log_event (OpenMfdataset (series_file ds endleg varname i)) w')"
  using assms
  by (simp add: frac_body_def open_mfdataset_eq accumulate_def)

lemma full_body_files:
  "files (snd (full_body E info varname pattern xf yf filename i fw)) = files (snd fw)"
  by (simp add: full_body_def open_mfdataset_eq split: sum.splits)

lemma reco_body_files:
  "files (snd (reco_body E ds info varname endleg pattern i fw)) = files (snd fw)"
  by (simp add: reco_body_def open_mfdataset_eq split: sum.splits)

lemma frac_body_files:
  "files (snd (frac_body E ds info varname endleg pattern xf i fw)) = files (snd fw)"
  by (simp add: frac_body_def open_mfdataset_eq split: sum.splits)

lemma eof_mode_files:
  "files (snd (eof_mode E ds info varname endleg n pattern xf yf mode fw)) = files (snd fw)"
proof -
  have reco: "files (snd (for_range (reco_body E ds info varname endleg pattern) (py_range n) fw))
                = files (snd fw)"
    by (rule for_range_files) (rule reco_body_files)
  have frac: "\<And>k w1. files (snd (for_range (frac_body E ds info varname endleg pattern xf)
                 (py_range k) (fst fw, w1))) = files w1"
    using for_range_files [of "frac_body E ds info varname endleg pattern xf", OF frac_body_files]
    by simp
  show ?thesis
    using reco
    by (auto simp add: eof_mode_def full_body_files for_range_files frac_mode_def fit_mode_def
          open_mfdataset_eq Let_def frac case_prod_unfold
          split: sum.splits)
qed

lemma open_mfdataset_dim:
  "open_mfdataset E w filename ftype info = (Inr r, w1) \<Longrightarrow> dim info = ''2D'' \<or> dim info = ''3D''"
  by (auto simp add: open_mfdataset_eq bind_err_def process_data_def
        split: option.splits sum.splits if_splits)

lemma process_data_dim:
  "process_data E d ftype dm grd = Inr r \<Longrightarrow> dm = ''2D'' \<or> dm = ''3D''"
  by (auto simp add: process_data_def split: if_splits)

subsection \<open>Mode \<open>full\<close>\<close>

text \<open>
  Claim C5: in mode \<open>full\<close>, for every index \<open>i\<close> from \<open>0\<close> to \<open>neofs - 1\<close>, with
  \<open>neofs = endyear - startyear + 1\<close>, the series of index \<open>i\<close> gets decimal years as
  time axis and is fitted with \<open>polyfit\<close> of degree 1 with \<open>skipna=True\<close>, the fit is
  evaluated with \<open>polyval\<close> at the forecast coordinate \<open>xf\<close>, giving \<open>th i\<close>, and the
  product of \<open>th i\<close> with the pattern of index \<open>i\<close>, \<open>bs i\<close>, is added to the field:
  when every step succeeds, the field handed to the final transposition and writing is
  \<open>fl neofs\<close>, where \<open>fl (i + 1)\<close> is \<open>fl i\<close> plus \<open>th i\<close> times \<open>bs i\<close>, stamped with
  the forecast date, and the series are read in order, once each.
\<close>

theorem project_eofs_full_accumulates:
  fixes E :: "('o, 'f, 'n) env" and fl th bs :: "int \<Rightarrow> 'o"
  assumes "eof_setup E varname endleg yearspan yearleap = Inr s"
      and "files w (leg_file (folders E expname) endleg (varname @ ''_pattern.nc'')) = Some pf"
      and "nc_read E pf = Inr praw"
      and "process_data E praw ''pattern'' (dim (setup_info s)) (grid (setup_info s)) = Inr pattern"
      and "isel E [(''time'', 0)] pattern = Inr p0"
      and "x_mul_int E p0 0 = Inr (fl 0)"
      and "\<forall>i \<in> set (py_range (setup_neofs s)). \<exists>f raw ts tv nt ts' p c mq tm g.
             files w (series_file (folders E expname) endleg varname i) = Some f
           \<and> nc_read E f = Inr raw
           \<and> process_data E raw ''series'' (dim (setup_info s)) (grid (setup_info s)) = Inr ts
           \<and> time_values E ts = Inr tv
           \<and> get_decimal_year E tv = Inr nt
           \<and> setitem E ts ''time'' (np_array E nt) = Inr ts'
           \<and> polyfit E ts' ''time'' 1 True = Inr p
           \<and> getitem E p (varname @ ''_polyfit_coefficients'') = Inr c
           \<and> unpack_pair E c = Inr mq
           \<and> polyval E (setup_xf s) c = Inr (th i)
           \<and> isel E [(''time'', i)] pattern = Inr (bs i)
           \<and> x_mul E (th i) (bs i) = Inr tm
           \<and> x_add E (fl i) tm = Inr g
           \<and> setitem E g ''time'' (setup_yf s) = Inr (fl (i + 1))"
  shows "setup_neofs s = (1990 + endleg - 2) - (1990 + (endleg - yearspan + 1) - 2) + 1
       \<and> project_eofs E w expname varname endleg yearspan yearleap ''full'' =
           write_eof E (folders E expname) (setup_info s) varname endleg
             (fl (max 0 (setup_neofs s)))
             (w\<lparr>trace := trace w
                  @ OpenMfdataset (leg_file (folders E expname) endleg (varname @ ''_pattern.nc''))
                  # map (\<lambda>i. OpenMfdataset (series_file (folders E expname) endleg varname i))
                      (py_range (setup_neofs s))\<rparr>)"
proof
  show "setup_neofs s = (1990 + endleg - 2) - (1990 + (endleg - yearspan + 1) - 2) + 1"
    using assms(1)
    by (auto simp add: eof_setup_def Let_def bind_err_def split: sum.splits)
next
  let ?ds = "folders E expname"
  let ?w1 = "log_event (OpenMfdataset (leg_file ?ds endleg (varname @ ''_pattern.nc''))) w"
  let ?body = "\<lambda>i. full_body E (setup_info s) varname pattern (setup_xf s) (setup_yf s)
                      (series_file ?ds endleg varname i) i"
  let ?ev = "\<lambda>i. OpenMfdataset (series_file ?ds endleg varname i)"
  have step: "\<forall>i. 0 \<le> i \<and> i \<le> setup_neofs s - 1 \<longrightarrow>
      (\<forall>w'. files w' = files w \<longrightarrow> ?body i (fl i, w') = (Inr (fl (i + 1)), log_event (?ev i) w'))"
  proof (intro allI impI)
    fix i :: int and w' :: "'f world"
    assume i: "0 \<le> i \<and> i \<le> setup_neofs s - 1" and w': "files w' = files w"
    then have mem: "i \<in> set (py_range (setup_neofs s))" by (simp add: py_range_def)
    from bspec [OF assms(7) mem] w'
    show "?body i (fl i, w') = (Inr (fl (i + 1)), log_event (?ev i) w')"
      by (elim exE conjE) (rule full_body_step, simp_all)
  qed
  have loop: "for_range ?body [0..setup_neofs s - 1] (fl 0, ?w1) =
      (Inr (fl (max 0 (setup_neofs s - 1 + 1))),
       ?w1\<lparr>trace := trace ?w1 @ map ?ev [0..setup_neofs s - 1]\<rparr>)"
    by (rule for_range_upto [OF step]) simp
  show "project_eofs E w expname varname endleg yearspan yearleap ''full'' =
           write_eof E ?ds (setup_info s) varname endleg (fl (max 0 (setup_neofs s)))
             (w\<lparr>trace := trace w
                  @ OpenMfdataset (leg_file ?ds endleg (varname @ ''_pattern.nc''))
                  # map ?ev (py_range (setup_neofs s))\<rparr>)"
    using assms(1-6) loop
    by (simp add: project_eofs_def Let_def open_mfdataset_eq eof_mode_def py_range_def log_event_def)
qed

theorem project_eofs_full_accumulates_witness:
  "project_eofs demo_env eof_world ''X1'' ''thetao'' 4 2 8 ''full'' =
     (Inr 42095,
      \<lparr>files = (files eof_world)(''/tmp/X1/004/thetao_eof.nc'' \<mapsto> 42095),
         trace = [OpenMfdataset ''/tmp/X1/004/thetao_pattern.nc'',
                  OpenMfdataset ''/tmp/X1/004/thetao_series_00000.nc'',
                  OpenMfdataset ''/tmp/X1/004/thetao_series_00001.nc'',
                  RemoveFile ''/tmp/X1/004/thetao_eof.nc'',
                  ToNetcdf ''/tmp/X1/004/thetao_eof.nc'']\<rparr>)"
  using project_eofs_full_accumulates [of demo_env "''thetao''" 4 2 8
          "\<lparr>setup_neofs = 2, setup_info = thetao_entry, setup_xf = 2000, setup_yf = 2000\<rparr>"
          eof_world "''X1''" 10 10 10 10
          "\<lambda>i. if i = 0 then 0 else if i = 1 then 20040 else 42095"
          "\<lambda>i. 2004 + i" "\<lambda>i. 10 + i"]
  by (simp add: demo_setup demo_process_data eof_world_def py_range_def upto_rec1
        write_eof_def fit_dimensions_def Let_def remove_existing_filelist_def to_netcdf_def
        log_event_def)

subsection \<open>Mode \<open>frac\<close>\<close>

text \<open>
  The binary search finds the boundary of any predicate \<open>a ! i < key\<close> that is closed
  downwards along the array.
\<close>

lemma binsearch_left_correct:
  "(\<forall>i j. i \<le> j \<and> j < length a \<and> lt (a ! j) key \<longrightarrow> lt (a ! i) key) \<Longrightarrow>
   lo \<le> hi \<Longrightarrow> hi \<le> length a \<Longrightarrow>
   (\<forall>i < lo. lt (a ! i) key) \<Longrightarrow>
   (\<forall>i. hi \<le> i \<and> i < length a \<longrightarrow> \<not> lt (a ! i) key) \<Longrightarrow>
   lo \<le> binsearch_left lt a key lo hi \<and> binsearch_left lt a key lo hi \<le> hi
   \<and> (\<forall>i < binsearch_left lt a key lo hi. lt (a ! i) key)
   \<and> (\<forall>i. binsearch_left lt a key lo hi \<le> i \<and> i < length a \<longrightarrow> \<not> lt (a ! i) key)"
proof (induction lt a key lo hi rule: binsearch_left.induct)
  case (1 lt a key lo hi)
  note mono = "1.prems"(1)
  show ?case
  proof (cases "lo < hi")
    case False
    then have "binsearch_left lt a key lo hi = lo"
      by (subst binsearch_left.simps) simp
    with False "1.prems" show ?thesis
      by simp
  next
    case True
    define mid where "mid = lo + (hi - lo) div 2"
    from True have mid: "lo \<le> mid" "mid < hi" by (simp_all add: mid_def)
    show ?thesis
    proof (cases "lt (a ! mid) key")
      case less: True
      have below: "\<forall>i < mid + 1. lt (a ! i) key"
      proof (intro allI impI)
        fix i assume "i < mid + 1"
        then have im: "i \<le> mid" by simp
        from mid "1.prems"(3) have ml: "mid < length a" by simp
        from mono [rule_format, of i mid] im ml less
        show "lt (a ! i) key" by blast
      qed
      have eq: "binsearch_left lt a key lo hi = binsearch_left lt a key (mid + 1) hi"
        using True less by (subst binsearch_left.simps) (simp add: mid_def Let_def)
      from mid "1.prems"(3) have le: "mid + 1 \<le> hi" by simp
      from "1.IH"(1) [OF True mid_def less mono le "1.prems"(3) below "1.prems"(5)] mid
      show ?thesis by (simp add: eq)
    next
      case notless: False
      have above: "\<forall>i. mid \<le> i \<and> i < length a \<longrightarrow> \<not> lt (a ! i) key"
      proof (intro allI impI)
        fix i assume h: "mid \<le> i \<and> i < length a"
        from mono [rule_format, of mid i] h notless
        show "\<not> lt (a ! i) key" by blast
      qed
      have eq: "binsearch_left lt a key lo hi = binsearch_left lt a key lo mid"
        using True notless by (subst binsearch_left.simps) (simp add: mid_def Let_def)
      from mid "1.prems"(3) have le: "mid \<le> length a" by simp
      from "1.IH"(2) [OF True mid_def notless mono mid(1) le "1.prems"(4) above] mid
      show ?thesis by (simp add: eq)
    qed
  qed
qed

lemma length_accumulate_from [simp]: "length (accumulate_from add acc xs) = length xs"
  by (induction xs arbitrary: acc) simp_all

lemma length_cumsum [simp]: "length (cumsum E xs) = length xs"
  by (cases xs) simp_all

lemma cumulative_weights_length [simp]: "length (cumulative_weights E ws) = length ws"
  by (simp add: cumulative_weights_def)

lemma accumulate_from_nth:
  "i < length xs \<Longrightarrow>
   accumulate_from add acc xs ! i =
     add (if i = 0 then acc else accumulate_from add acc xs ! (i - 1)) (xs ! i)"
proof (induction xs arbitrary: acc i)
  case Nil
  then show ?case by simp
next
  case (Cons x xs)
  show ?case
  proof (cases i)
    case 0
    then show ?thesis by simp
  next
    case (Suc k)
    with Cons.prems have k: "k < length xs" by simp
    show ?thesis
      using Cons.IH [OF k, of "add acc x"] Suc
      by (cases k) simp_all
  qed
qed

lemma cumsum_step:
  assumes "Suc j < length ws"
  shows "cumsum E ws ! Suc j = f_add E (cumsum E ws ! j) (ws ! Suc j)"
proof (cases ws)
  case Nil
  with assms show ?thesis by simp
next
  case (Cons x xs)
  with assms have j: "j < length xs" by simp
  from accumulate_from_nth [OF j, of "f_add E" x] Cons show ?thesis
    by (cases j) simp_all
qed

lemma cumsum_first: "ws \<noteq> [] \<Longrightarrow> cumsum E ws ! 0 = ws ! 0"
  by (cases ws) simp_all

lemma feofs_of_smallest:
  assumes mono: "\<forall>i j. i \<le> j \<and> j < length ws
                    \<and> f_less E (cumulative_weights E ws ! j) (threshold_percentage E)
                  \<longrightarrow> f_less E (cumulative_weights E ws ! i) (threshold_percentage E)"
      and ne: "ws \<noteq> []"
      and reach: "\<not> f_less E (last (cumulative_weights E ws)) (threshold_percentage E)"
  shows "0 < feofs_of E ws \<and> feofs_of E ws \<le> length ws
       \<and> \<not> f_less E (cumulative_weights E ws ! (feofs_of E ws - 1)) (threshold_percentage E)
       \<and> (\<forall>k. 0 < k \<and> k < feofs_of E ws \<longrightarrow>
             f_less E (cumulative_weights E ws ! (k - 1)) (threshold_percentage E))"
proof -
  define a where "a = cumulative_weights E ws"
  define r where "r = searchsorted E a (threshold_percentage E)"
  define P where "P = (\<lambda>i. f_less E (a ! i) (threshold_percentage E))"
  have la: "length a = length ws" by (simp add: a_def)
  have mono': "\<forall>i j. i \<le> j \<and> j < length a \<and> f_less E (a ! j) (threshold_percentage E)
                \<longrightarrow> f_less E (a ! i) (threshold_percentage E)"
    using mono unfolding a_def by simp
  have p3: "\<forall>i<0. f_less E (a ! i) (threshold_percentage E)" by simp
  have p4: "\<forall>i. length a \<le> i \<and> i < length a \<longrightarrow> \<not> f_less E (a ! i) (threshold_percentage E)"
    by auto
  have bs: "r \<le> length ws \<and> (\<forall>i < r. P i) \<and> (\<forall>i. r \<le> i \<and> i < length ws \<longrightarrow> \<not> P i)"
    using binsearch_left_correct [where lt = "f_less E" and a = a
            and key = "threshold_percentage E" and lo = 0 and hi = "length a",
            OF mono' le0 order_refl p3 p4]
    unfolding r_def searchsorted_def P_def la by blast
  from ne have an: "a \<noteq> []" using la by auto
  from ne have last: "length ws - 1 < length ws" by simp
  from an have "last a = a ! (length ws - 1)" by (simp add: last_conv_nth la)
  with reach have "\<not> P (length ws - 1)" by (simp add: P_def a_def)
  with bs last have "r \<noteq> length ws" by auto
  with bs have r: "r < length ws" by simp
  from bs r have nr: "\<not> P r" by simp
  have below: "\<forall>k. 0 < k \<and> k < Suc r \<longrightarrow> P (k - 1)"
  proof (intro allI impI)
    fix k assume k: "0 < k \<and> k < Suc r"
    then obtain j where j: "k = Suc j" by (cases k) simp_all
    with k have "j < r" by simp
    with bs have "P j" by blast
    with j show "P (k - 1)" by simp
  qed
  have eq: "feofs_of E ws = Suc r" by (simp add: feofs_of_def r_def a_def)
  show ?thesis
    unfolding eq
  proof (intro conjI)
    show "0 < Suc r" by simp
    show "Suc r \<le> length ws" using r by simp
    show "\<not> f_less E (cumulative_weights E ws ! (Suc r - 1)) (threshold_percentage E)"
      using nr by (simp add: P_def a_def)
    show "\<forall>k. 0 < k \<and> k < Suc r \<longrightarrow>
            f_less E (cumulative_weights E ws ! (k - 1)) (threshold_percentage E)"
      using below by (simp add: P_def a_def)
  qed
qed

lemma demo_shares_prefix:
  "\<forall>i j. i \<le> j \<and> j < length [3 / 4, 1 / 5, 1 / 20 :: real]
         \<and> f_less demo_env (cumulative_weights demo_env [3 / 4, 1 / 5, 1 / 20] ! j)
              (threshold_percentage demo_env)
       \<longrightarrow> f_less demo_env (cumulative_weights demo_env [3 / 4, 1 / 5, 1 / 20] ! i)
              (threshold_percentage demo_env)"
proof (intro allI impI)
  fix i j :: nat
  assume h: "i \<le> j \<and> j < length [3 / 4, 1 / 5, 1 / 20 :: real]
         \<and> f_less demo_env (cumulative_weights demo_env [3 / 4, 1 / 5, 1 / 20] ! j)
              (threshold_percentage demo_env)"
  then have "j = 0 \<or> j = 1 \<or> j = 2" by auto
  with h have "j = 0"
    by (auto simp add: demo_cumulative threshold_percentage_def)
  with h show "f_less demo_env (cumulative_weights demo_env [3 / 4, 1 / 5, 1 / 20] ! i)
              (threshold_percentage demo_env)"
    by simp
qed

text \<open>
  Claim C6: in mode \<open>frac\<close> the weights parsed from the lines of the command's output
  are summed cumulatively, each partial sum is the float sum of the one before and the
  next weight, and divided by their total; the loop accumulates exactly the indices
  \<open>0, ..., k - 1\<close>, where \<open>k\<close> is the smallest count whose cumulative share, as
  computed, is not below the threshold \<open>0.9\<close>. The shares are those of variances: a share
  below the threshold is preceded only by shares below it, and the last share reaches the
  threshold. The float operations are the environment's, so the statement holds for the
  rounding of float64.
\<close>

theorem project_eofs_frac_leading:
  fixes E :: "('o, 'f, 'n) env" and fl th bs :: "int \<Rightarrow> 'o"
  assumes "check_output E (cdo_command varname) = Inr stdout"
      and "parse_weights E (splitlines stdout) = Inr ws"
      and "\<forall>i j. i \<le> j \<and> j < length ws
                 \<and> f_less E (cumulative_weights E ws ! j) (threshold_percentage E)
               \<longrightarrow> f_less E (cumulative_weights E ws ! i) (threshold_percentage E)"
      and "ws \<noteq> []"
      and "\<not> f_less E (last (cumulative_weights E ws)) (threshold_percentage E)"
      and "\<forall>i \<in> set (py_range (int (feofs_of E ws))). \<exists>f raw ts p c tm.
             files w (series_file ds endleg varname i) = Some f
           \<and> nc_read E f = Inr raw
           \<and> process_data E raw ''series'' (dim info) (grid info) = Inr ts
           \<and> polyfit E ts ''time'' 1 True = Inr p
           \<and> getitem E p (varname @ ''_polyfit_coefficients'') = Inr c
           \<and> polyval E xf c = Inr (th i)
           \<and> isel E [(''time'', i)] pattern = Inr (bs i)
           \<and> x_mul E (th i) (bs i) = Inr tm
           \<and> x_add E (fl i) tm = Inr (fl (i + 1))"
  shows "cumsum E ws ! 0 = ws ! 0
       \<and> (\<forall>j. Suc j < length ws \<longrightarrow>
             cumsum E ws ! Suc j = f_add E (cumsum E ws ! j) (ws ! Suc j))
       \<and> (\<forall>j < length ws.
             cumulative_weights E ws ! j = f_div E (cumsum E ws ! j) (np_sum E ws))
       \<and> 0 < feofs_of E ws \<and> feofs_of E ws \<le> length ws
       \<and> \<not> f_less E (cumulative_weights E ws ! (feofs_of E ws - 1)) (threshold_percentage E)
       \<and> (\<forall>k. 0 < k \<and> k < feofs_of E ws \<longrightarrow>
             f_less E (cumulative_weights E ws ! (k - 1)) (threshold_percentage E))
       \<and> eof_mode E ds info varname endleg n pattern xf yf ''frac'' (fl 0, w) =
           (Inr (fl (int (feofs_of E ws))),
            w\<lparr>trace := trace w
                 @ CheckOutput (cdo_command varname)
                 # map (\<lambda>i. OpenMfdataset (series_file ds endleg varname i))
                     (py_range (int (feofs_of E ws)))\<rparr>)"
proof -
  have c0: "cumsum E ws ! 0 = ws ! 0" using assms(4) by (rule cumsum_first)
  have cs: "\<forall>j. Suc j < length ws \<longrightarrow>
             cumsum E ws ! Suc j = f_add E (cumsum E ws ! j) (ws ! Suc j)"
    by (simp add: cumsum_step)
  have cw: "\<forall>j < length ws.
             cumulative_weights E ws ! j = f_div E (cumsum E ws ! j) (np_sum E ws)"
    by (simp add: cumulative_weights_def)
  note small = feofs_of_smallest [OF assms(3) assms(4) assms(5)]
  let ?k = "int (feofs_of E ws)"
  let ?w1 = "log_event (CheckOutput (cdo_command varname)) w"
  let ?body = "frac_body E ds info varname endleg pattern xf"
  let ?ev = "\<lambda>i. OpenMfdataset (series_file ds endleg varname i)"
  have step: "\<forall>i. 0 \<le> i \<and> i \<le> ?k - 1 \<longrightarrow>
      (\<forall>w'. files w' = files w \<longrightarrow> ?body i (fl i, w') = (Inr (fl (i + 1)), log_event (?ev i) w'))"
  proof (intro allI impI)
    fix i :: int and w' :: "'f world"
    assume i: "0 \<le> i \<and> i \<le> ?k - 1" and w': "files w' = files w"
    then have mem: "i \<in> set (py_range ?k)" by (simp add: py_range_def)
    from bspec [OF assms(6) mem] w'
    show "?body i (fl i, w') = (Inr (fl (i + 1)), log_event (?ev i) w')"
      by (elim exE conjE) (rule frac_body_step, simp_all)
  qed
  have loop: "for_range ?body [0..?k - 1] (fl 0, ?w1) =
      (Inr (fl (max 0 (?k - 1 + 1))), ?w1\<lparr>trace := trace ?w1 @ map ?ev [0..?k - 1]\<rparr>)"
    by (rule for_range_upto [OF step]) simp
  have mode: "eof_mode E ds info varname endleg n pattern xf yf ''frac'' (fl 0, w) =
           (Inr (fl ?k), w\<lparr>trace := trace w @ CheckOutput (cdo_command varname)
                 # map ?ev (py_range ?k)\<rparr>)"
    using assms(1,2) loop
    by (simp add: eof_mode_def frac_mode_def Let_def py_range_def log_event_def)
  from c0 cs cw small mode show ?thesis by blast
qed

theorem project_eofs_frac_leading_witness:
  "feofs_of demo_env [3 / 4, 1 / 5, 1 / 20] = 2
   \<and> eof_mode demo_env demo_dirs thetao_entry ''thetao'' 4 2 10 2000 2000 ''frac'' (0, eof_world) =
       (Inr 42095,
        eof_world\<lparr>trace := [CheckOutput ''cdo info -div thetao_variance.nc -timsum thetao_variance.nc'',
                             OpenMfdataset ''/tmp/X1/004/thetao_series_00000.nc'',
                             OpenMfdataset ''/tmp/X1/004/thetao_series_00001.nc'']\<rparr>)"
  using project_eofs_frac_leading [where E = demo_env and varname = "''thetao''"
          and stdout = demo_output and ws = "[3 / 4, 1 / 5, 1 / 20]" and w = eof_world
          and ds = demo_dirs and endleg = 4 and info = thetao_entry and xf = 2000
          and pattern = 10 and n = 2 and yf = 2000
          and fl = "\<lambda>i. if i = 0 then 0 else if i = 1 then 20040 else 42095"
          and th = "\<lambda>i. 2004 + i" and bs = "\<lambda>i. 10 + i", OF _ _ demo_shares_prefix]
  by (simp add: demo_weights demo_feofs demo_cumulative demo_process_data eof_world_def py_range_def
        upto_rec1 demo_dirs_def cdo_command_def threshold_percentage_def)

subsection \<open>Transposition and writing\<close>

text \<open>
  When \<open>project_eofs\<close> returns, in any mode, what it returns is the field of the mode
  transposed to \<open>(time, z, y, x)\<close> for a 3D variable or to \<open>(time, y, x)\<close> for a 2D
  variable, and the file \<open>{varname}_eof.nc\<close> of the leg holds it: a file that was there is
  removed first, then the field is written, and no other file changes. When it raises,
  no file changes.
\<close>

lemma project_eofs_returns_transposed:
  assumes "project_eofs E w expname varname endleg yearspan yearleap mode = (Inr r, w')"
  shows "\<exists>s pattern field0 w1 field w2.
           eof_setup E varname endleg yearspan yearleap = Inr s
         \<and> bind_err (isel E [(''time'', 0)] pattern) (\<lambda>p0. x_mul_int E p0 0) = Inr field0
         \<and> eof_mode E (folders E expname) (setup_info s) varname endleg (setup_neofs s) pattern
              (setup_xf s) (setup_yf s) mode (field0, w1) = (Inr field, w2)
         \<and> (dim (setup_info s) = ''3D''
               \<and> transpose_dims E [''time'', ''z'', ''y'', ''x''] field = Inr r
             \<or> dim (setup_info s) = ''2D''
               \<and> transpose_dims E [''time'', ''y'', ''x''] field = Inr r)
         \<and> files w' = (files w)(leg_file (folders E expname) endleg (varname @ ''_eof.nc'')
                                   \<mapsto> nc_write E r)
         \<and> trace w' = trace w2 @ [RemoveFile (leg_file (folders E expname) endleg (varname @ ''_eof.nc'')),
                                   ToNetcdf (leg_file (folders E expname) endleg (varname @ ''_eof.nc''))]"
proof -
  let ?ds = "folders E expname"
  let ?infile = "leg_file ?ds endleg (varname @ ''_eof.nc'')"
  from assms obtain s where s: "eof_setup E varname endleg yearspan yearleap = Inr s"
    by (cases "eof_setup E varname endleg yearspan yearleap") (simp_all add: project_eofs_def)
  let ?pfile = "leg_file ?ds endleg (varname @ ''_pattern.nc'')"
  let ?w1 = "log_event (OpenMfdataset ?pfile) w"
  from assms s obtain pattern where
    pat: "open_mfdataset E w ?pfile ''pattern'' (setup_info s) = (Inr pattern, ?w1)"
    by (cases "fst (open_mfdataset E w ?pfile ''pattern'' (setup_info s))")
       (auto simp add: project_eofs_def Let_def open_mfdataset_eq)
  then have dm: "dim (setup_info s) = ''2D'' \<or> dim (setup_info s) = ''3D''"
    by (rule open_mfdataset_dim)
  from assms s pat obtain field0 where
    f0: "bind_err (isel E [(''time'', 0)] pattern) (\<lambda>p0. x_mul_int E p0 0) = Inr field0"
    by (cases "bind_err (isel E [(''time'', 0)] pattern) (\<lambda>p0. x_mul_int E p0 0)")
       (simp_all add: project_eofs_def Let_def)
  let ?m = "eof_mode E ?ds (setup_info s) varname endleg (setup_neofs s) pattern
              (setup_xf s) (setup_yf s) mode (field0, ?w1)"
  from assms s pat f0 obtain field w2 where
    m: "?m = (Inr field, w2)" and wr: "write_eof E ?ds (setup_info s) varname endleg field w2 = (Inr r, w')"
    by (cases ?m; cases "fst ?m") (auto simp add: project_eofs_def Let_def)
  have fw2: "files w2 = files w"
    using eof_mode_files [of E ?ds "setup_info s" varname endleg "setup_neofs s" pattern
            "setup_xf s" "setup_yf s" mode "(field0, ?w1)"] m
    by simp
  from wr have fd: "fit_dimensions E (setup_info s) field = Inr r"
    and w': "w' = to_netcdf E r ?infile (remove_existing_filelist ?infile w2)"
    by (auto simp add: write_eof_def Let_def split: sum.splits)
  from fd dm have tr: "dim (setup_info s) = ''3D''
               \<and> transpose_dims E [''time'', ''z'', ''y'', ''x''] field = Inr r
             \<or> dim (setup_info s) = ''2D''
               \<and> transpose_dims E [''time'', ''y'', ''x''] field = Inr r"
    by (auto simp add: fit_dimensions_def bind_err_def split: if_splits sum.splits)
  have files: "files w' = (files w)(?infile \<mapsto> nc_write E r)"
    by (simp add: w' to_netcdf_def remove_existing_filelist_def fw2)
  have trace: "trace w' = trace w2 @ [RemoveFile ?infile, ToNetcdf ?infile]"
    by (simp add: w' to_netcdf_def remove_existing_filelist_def)
  from s f0 m tr files trace show ?thesis by blast
qed

lemma project_eofs_error_files:
  assumes "fst (project_eofs E w expname varname endleg yearspan yearleap mode) = Inl e"
  shows "files (snd (project_eofs E w expname varname endleg yearspan yearleap mode)) = files w"
proof (cases "eof_setup E varname endleg yearspan yearleap")
  case (Inl e')
  then show ?thesis by (simp add: project_eofs_def)
next
  case (Inr s)
  let ?ds = "folders E expname"
  let ?pfile = "leg_file ?ds endleg (varname @ ''_pattern.nc'')"
  let ?w1 = "log_event (OpenMfdataset ?pfile) w"
  show ?thesis
  proof (cases "fst (open_mfdataset E w ?pfile ''pattern'' (setup_info s))")
    case (Inl e')
    with Inr show ?thesis
      by (simp add: project_eofs_def Let_def open_mfdataset_eq)
  next
    case pat: (Inr pattern)
    show ?thesis
    proof (cases "bind_err (isel E [(''time'', 0)] pattern) (\<lambda>p0. x_mul_int E p0 0)")
      case (Inl e')
      with Inr pat show ?thesis
        by (simp add: project_eofs_def Let_def open_mfdataset_eq)
    next
      case f0: (Inr field0)
      let ?m = "eof_mode E ?ds (setup_info s) varname endleg (setup_neofs s) pattern
                  (setup_xf s) (setup_yf s) mode (field0, ?w1)"
      have fm: "files (snd ?m) = files w"
        using eof_mode_files [of E ?ds "setup_info s" varname endleg "setup_neofs s" pattern
                "setup_xf s" "setup_yf s" mode "(field0, ?w1)"]
        by simp
      show ?thesis
      proof (cases "fst ?m")
        case (Inl e')
        with Inr pat f0 fm show ?thesis
          by (simp add: project_eofs_def Let_def open_mfdataset_eq case_prod_unfold)
      next
        case md: (Inr field)
        from assms Inr pat f0 md
        have "fst (write_eof E ?ds (setup_info s) varname endleg field (snd ?m)) = Inl e"
          by (simp add: project_eofs_def Let_def open_mfdataset_eq case_prod_unfold)
        then have "snd (write_eof E ?ds (setup_info s) varname endleg field (snd ?m)) = snd ?m"
          by (simp add: write_eof_def Let_def split: sum.splits)
        with Inr pat f0 md fm show ?thesis
          by (simp add: project_eofs_def Let_def open_mfdataset_eq case_prod_unfold)
      qed
    qed
  qed
qed

text \<open>
  In mode \<open>reco\<close> the field never has the dimension \<open>time\<close>: it starts as
  \<open>pattern.isel(time=0) * 0\<close>, and every term added to it is the product of
  \<open>timeseries[varname].isel(time=-1)\<close> and \<open>pattern.isel(time=i)\<close>.
\<close>

lemma reco_body_no_time:
  fixes E :: "('o, 'f, 'n) env"
  assumes isel_dims: "\<And>ix d d'. isel E ix d = Inr d' \<Longrightarrow>
                        set (dims_of E d') \<subseteq> set (dims_of E d) - set (map fst ix)"
      and mul_dims: "\<And>a b d'. x_mul E a b = Inr d' \<Longrightarrow>
                        set (dims_of E d') \<subseteq> set (dims_of E a) \<union> set (dims_of E b)"
      and add_dims: "\<And>a b d'. x_add E a b = Inr d' \<Longrightarrow>
                        set (dims_of E d') \<subseteq> set (dims_of E a) \<union> set (dims_of E b)"
      and "''time'' \<notin> set (dims_of E (fst fw))"
      and "reco_body E ds info varname endleg pattern i fw = (Inr r, w1)"
  shows "''time'' \<notin> set (dims_of E r)"
proof -
  from assms(5) obtain timeseries series theta basis tm where
    th: "isel E [(''time'', - 1)] series = Inr theta"
    and bs: "isel E [(''time'', i)] pattern = Inr basis"
    and tm: "x_mul E theta basis = Inr tm"
    and r: "x_add E (fst fw) tm = Inr r"
    by (auto simp add: reco_body_def open_mfdataset_eq accumulate_def bind_err_def
          split: sum.splits option.splits)
  from isel_dims [OF th] have "''time'' \<notin> set (dims_of E theta)" by auto
  moreover from isel_dims [OF bs] have "''time'' \<notin> set (dims_of E basis)" by auto
  ultimately have "''time'' \<notin> set (dims_of E tm)" using mul_dims [OF tm] by auto
  with assms(4) add_dims [OF r] show ?thesis by auto
qed

text \<open>
  Claim C7 says that in every mode, \<open>reco\<close> included, the field is transposed to
  \<open>(time, z, y, x)\<close> or \<open>(time, y, x)\<close> and written. In mode \<open>reco\<close> the code does not
  get there. With an array library in which selecting an index along a dimension removes
  the dimension, a product or sum has no dimension that neither operand has, dropping
  variables adds no dimension, and a transposition that names a dimension its argument
  does not have raises, \<open>project_eofs\<close> in mode \<open>reco\<close> raises for all arguments and
  changes no file, so that a file written earlier stays.
\<close>

theorem project_eofs_reco_raises:
  fixes E :: "('o, 'f, 'n) env"
  assumes isel_dims: "\<And>ix d d'. isel E ix d = Inr d' \<Longrightarrow>
                        set (dims_of E d') \<subseteq> set (dims_of E d) - set (map fst ix)"
      and mul_int_dims: "\<And>d k d'. x_mul_int E d k = Inr d' \<Longrightarrow>
                        set (dims_of E d') \<subseteq> set (dims_of E d)"
      and mul_dims: "\<And>a b d'. x_mul E a b = Inr d' \<Longrightarrow>
                        set (dims_of E d') \<subseteq> set (dims_of E a) \<union> set (dims_of E b)"
      and add_dims: "\<And>a b d'. x_add E a b = Inr d' \<Longrightarrow>
                        set (dims_of E d') \<subseteq> set (dims_of E a) \<union> set (dims_of E b)"
      and drop_dims: "\<And>ns d d'. drop_vars E ns d = Inr d' \<Longrightarrow>
                        set (dims_of E d') \<subseteq> set (dims_of E d)"
      and transpose_raises: "\<And>ns d d'. transpose_dims E ns d = Inr d' \<Longrightarrow>
                        set ns \<subseteq> set (dims_of E d)"
  shows "(\<exists>e. fst (project_eofs E w expname varname endleg yearspan yearleap ''reco'') = Inl e)
       \<and> files (snd (project_eofs E w expname varname endleg yearspan yearleap ''reco'')) = files w"
proof -
  let ?res = "project_eofs E w expname varname endleg yearspan yearleap ''reco''"
  have no: "fst ?res \<noteq> Inr r" for r
  proof
    assume "fst ?res = Inr r"
    then have ret: "?res = (Inr r, snd ?res)" by (simp add: prod_eq_iff)
    from project_eofs_returns_transposed [OF ret] obtain s pattern field0 w1 field w2 where
      "eof_setup E varname endleg yearspan yearleap = Inr s" and
      m: "eof_mode E (folders E expname) (setup_info s) varname endleg (setup_neofs s) pattern
            (setup_xf s) (setup_yf s) ''reco'' (field0, w1) = (Inr field, w2)"
      and tr: "dim (setup_info s) = ''3D''
                 \<and> transpose_dims E [''time'', ''z'', ''y'', ''x''] field = Inr r
               \<or> dim (setup_info s) = ''2D''
                 \<and> transpose_dims E [''time'', ''y'', ''x''] field = Inr r"
      and f0: "bind_err (isel E [(''time'', 0)] pattern) (\<lambda>p0. x_mul_int E p0 0) = Inr field0"
      by blast
    from f0 obtain p0 where p0: "isel E [(''time'', 0)] pattern = Inr p0"
      and fz: "x_mul_int E p0 0 = Inr field0"
      by (auto simp add: bind_err_def split: sum.splits)
    from isel_dims [OF p0] mul_int_dims [OF fz] have t0: "''time'' \<notin> set (dims_of E field0)"
      by auto
    from m obtain looped where
      loop: "for_range (reco_body E (folders E expname) (setup_info s) varname endleg pattern)
               (py_range (setup_neofs s)) (field0, w1) = (Inr looped, w2)"
      and dr: "drop_vars E [''time''] looped = Inr field"
      by (auto simp add: eof_mode_def split: prod.splits sum.splits)
    have "''time'' \<notin> set (dims_of E looped)"
    proof (rule for_range_invariant [where P = "\<lambda>d. ''time'' \<notin> set (dims_of E d)", OF _ _ loop])
      fix i :: int and fw :: "'o \<times> 'f world" and r' :: 'o and w1' :: "'f world"
      assume a: "''time'' \<notin> set (dims_of E (fst fw))"
        and b: "reco_body E (folders E expname) (setup_info s) varname endleg pattern i fw = (Inr r', w1')"
      show "''time'' \<notin> set (dims_of E r')"
        by (rule reco_body_no_time [OF isel_dims mul_dims add_dims a b])
    next
      show "''time'' \<notin> set (dims_of E (fst (field0, w1)))" using t0 by simp
    qed
    with drop_dims [OF dr] have "''time'' \<notin> set (dims_of E field)" by auto
    moreover from tr have "''time'' \<in> set (dims_of E field)"
      using transpose_raises by fastforce
    ultimately show False by simp
  qed
  then obtain e where e: "fst ?res = Inl e" by (cases "fst ?res") auto
  from project_eofs_error_files [OF e] e show ?thesis by blast
qed

lemma xr_reco:
  "project_eofs xr_env xr_world ''X1'' ''thetao'' 4 2 8 ''reco'' =
     (Inl ValueError,
      xr_world\<lparr>trace := [OpenMfdataset ''/tmp/X1/004/thetao_pattern.nc'',
                          OpenMfdataset ''/tmp/X1/004/thetao_series_00000.nc'',
                          OpenMfdataset ''/tmp/X1/004/thetao_series_00001.nc'']\<rparr>)"
  by (simp add: xr_eval)

theorem project_eofs_reco_raises_witness:
  "fst (project_eofs xr_env xr_world ''X1'' ''thetao'' 4 2 8 ''reco'') = Inl ValueError
   \<and> files (snd (project_eofs xr_env xr_world ''X1'' ''thetao'' 4 2 8 ''reco'')) = files xr_world
   \<and> files xr_world ''/tmp/X1/004/thetao_eof.nc'' = Some [''stale'']"
proof -
  have c1: "\<And>ix d d'. isel xr_env ix d = Inr d' \<Longrightarrow>
              set (dims_of xr_env d') \<subseteq> set (dims_of xr_env d) - set (map fst ix)"
    by (force split: if_splits)
  have c2: "\<And>d k d'. x_mul_int xr_env d k = Inr d' \<Longrightarrow>
              set (dims_of xr_env d') \<subseteq> set (dims_of xr_env d)"
    by auto
  have c3: "\<And>a b d'. x_mul xr_env a b = Inr d' \<Longrightarrow>
              set (dims_of xr_env d') \<subseteq> set (dims_of xr_env a) \<union> set (dims_of xr_env b)"
    by (auto simp add: union_dims_def)
  have c4: "\<And>a b d'. x_add xr_env a b = Inr d' \<Longrightarrow>
              set (dims_of xr_env d') \<subseteq> set (dims_of xr_env a) \<union> set (dims_of xr_env b)"
    by (auto simp add: union_dims_def)
  have c5: "\<And>ns d d'. drop_vars xr_env ns d = Inr d' \<Longrightarrow>
              set (dims_of xr_env d') \<subseteq> set (dims_of xr_env d)"
    by auto
  have c6: "\<And>ns d d'. transpose_dims xr_env ns d = Inr d' \<Longrightarrow> set ns \<subseteq> set (dims_of xr_env d)"
    by (auto simp add: list_all_iff split: if_splits)
  from project_eofs_reco_raises [of xr_env xr_world "''X1''" "''thetao''" 4 2 8, OF c1 c2 c3 c4 c5 c6]
  show ?thesis
    by (simp add: xr_reco) (simp add: xr_world_def)
qed

text \<open>In the same environment mode \<open>full\<close> transposes and writes the field.\<close>

lemma xr_full:
  "project_eofs xr_env xr_world ''X1'' ''thetao'' 4 2 8 ''full'' =
     (Inr [''time'', ''z'', ''y'', ''x''],
      \<lparr>files = (files xr_world)(''/tmp/X1/004/thetao_eof.nc'' \<mapsto> [''time'', ''z'', ''y'', ''x'']),
         trace = [OpenMfdataset ''/tmp/X1/004/thetao_pattern.nc'',
                  OpenMfdataset ''/tmp/X1/004/thetao_series_00000.nc'',
                  OpenMfdataset ''/tmp/X1/004/thetao_series_00001.nc'',
                  RemoveFile ''/tmp/X1/004/thetao_eof.nc'',
                  ToNetcdf ''/tmp/X1/004/thetao_eof.nc'']\<rparr>)"
  by (simp add: xr_eval)

section \<open>The rollback of the leg file\<close>

text \<open>
  Claim C10: the leg file is rewritten only when the requested leg is strictly less than
  the recorded leg number; when they are equal the file is left as it is and the update
  ends normally; when the requested leg is greater the file is left as it is and
  \<open>ValueError\<close> is raised. The new date is computed before the comparison, so the last
  three statements are for a date shift that returns.
\<close>

theorem update_leginfo_only_backwards:
  assumes "legfile w = Some leginfo"
      and "py_int R leg = Inr n"
  shows "(snd (update_leginfo R leg w) \<noteq> w \<longrightarrow> n < num leginfo)
       \<and> (n = num leginfo \<longrightarrow> snd (update_leginfo R leg w) = w)
       \<and> (num leginfo < n \<longrightarrow> snd (update_leginfo R leg w) = w)
       \<and> (\<forall>newdate. add_years R (start leginfo) (n - num leginfo) = Inr newdate \<longrightarrow>
            (n < num leginfo \<longrightarrow>
               update_leginfo R leg w =
                 (Inr (newdate, start leginfo),
                  w\<lparr>legfile := Some (leginfo\<lparr>num := n, start := newdate\<rparr>),
                     dumps := dumps w + 1\<rparr>))
          \<and> (n = num leginfo \<longrightarrow> fst (update_leginfo R leg w) = Inr (newdate, start leginfo))
          \<and> (num leginfo < n \<longrightarrow> fst (update_leginfo R leg w) = Inl ValueError))"
  using assms
  by (auto simp add: update_leginfo_def Let_def split: sum.splits)

theorem update_leginfo_only_backwards_witness:
  "update_leginfo demo_rollback_env ''3'' demo_rollback_world =
     (Inr (1991, 1993), \<lparr>legfile = Some \<lparr>num = 3, start = 1991, others = ()\<rparr>, dumps = 1\<rparr>)
   \<and> update_leginfo demo_rollback_env ''5'' demo_rollback_world =
     (Inr (1993, 1993), demo_rollback_world)
   \<and> update_leginfo demo_rollback_env ''7'' demo_rollback_world =
     (Inl ValueError, demo_rollback_world)"
  using update_leginfo_only_backwards [of demo_rollback_world "\<lparr>num = 5, start = 1993, others = ()\<rparr>"
          demo_rollback_env "''3''" 3]
        update_leginfo_only_backwards [of demo_rollback_world "\<lparr>num = 5, start = 1993, others = ()\<rparr>"
          demo_rollback_env "''5''" 5]
        update_leginfo_only_backwards [of demo_rollback_world "\<lparr>num = 5, start = 1993, others = ()\<rparr>"
          demo_rollback_env "''7''" 7]
  by (simp add: demo_rollback_env_def demo_rollback_world_def prod_eq_iff)

end
